theory Spec2Isabelle
  imports Complex_Main "HOL-Library.Word" "HOL-Library.Log_Nat"
begin

section \<open>Strings and bytes\<close>

text \<open>
  A JavaScript string is a sequence of UTF-16 code units; a code unit is modelled by its
  number. \<open>js\<close> turns an ASCII literal into such a string. A Node.js Buffer is a list of
  bytes.
\<close>

type_synonym jsstring = "nat list"

definition js :: "string \<Rightarrow> jsstring" where
  "js s = map of_char s"

type_synonym byte = "8 word"

section \<open>JavaScript values\<close>

text \<open>
  A JavaScript number is NaN, an infinity or a finite binary64 value, given here by the
  real it denotes; the sign of zero is not modelled. \<open>Math.max\<close>, \<open>Math.min\<close> and the
  comparisons are exact on such values. A conversion from a string rounds to binary64
  (\<open>toBinary64\<close> below).
\<close>

datatype jsnum = NaN | NegInf | Fin real | PosInf

fun negate :: "jsnum \<Rightarrow> jsnum" where
  "negate NaN = NaN"
| "negate NegInf = PosInf"
| "negate (Fin x) = Fin (- x)"
| "negate PosInf = NegInf"

definition scale2 :: "real \<Rightarrow> int \<Rightarrow> real" where
  "scale2 x e = (if 0 \<le> e then x * 2 ^ nat e else x / 2 ^ nat (- e))"

text \<open>
  The number for the rational \<open>p / q\<close> (with \<open>q\<close> positive): the binary64 value nearest
  to it, the one with the even significand if two are equally near, and Infinity where
  that rounding reaches 2 to the power 1024. \<open>lastPlace\<close> is the exponent of the last
  place of the significand: the integer part \<open>l\<close> of the binary logarithm of \<open>p / q\<close>
  less 52, and at least -1074, the exponent of the subnormal values. \<open>roundScaled\<close>
  divides \<open>p / q\<close> by 2 to that exponent and rounds the quotient \<open>k\<close> by its remainder
  \<open>r\<close>.
\<close>

definition lastPlace :: "nat \<Rightarrow> nat \<Rightarrow> int" where
  "lastPlace p q =
     (let d = int (floorlog 2 p) - int (floorlog 2 q);
          l = (if (if 0 \<le> d then q * 2 ^ nat d \<le> p else q \<le> p * 2 ^ nat (- d))
               then d else d - 1)
      in max (l - 52) (- 1074))"

definition roundScaled :: "nat \<Rightarrow> nat \<Rightarrow> int \<Rightarrow> jsnum" where
  "roundScaled p q e =
     (let n = (if 0 \<le> e then p else p * 2 ^ nat (- e));
          m = (if 0 \<le> e then q * 2 ^ nat e else q);
          k = n div m;
          r = n mod m;
          k' = (if m < 2 * r \<or> (2 * r = m \<and> odd k) then k + 1 else k)
      in if 2 ^ 1024 \<le> scale2 (real k') e then PosInf else Fin (scale2 (real k') e))"

definition toBinary64 :: "nat \<Rightarrow> nat \<Rightarrow> jsnum" where
  "toBinary64 p q = (if p = 0 then Fin 0 else roundScaled p q (lastPlace p q))"

fun num_le :: "jsnum \<Rightarrow> jsnum \<Rightarrow> bool" where
  "num_le NaN _ = False"
| "num_le _ NaN = False"
| "num_le NegInf _ = True"
| "num_le _ PosInf = True"
| "num_le (Fin a) (Fin b) = (a \<le> b)"
| "num_le _ _ = False"

text \<open>\<open>Math.max(a, b)\<close> and \<open>Math.min(a, b)\<close>: NaN if either argument is NaN.\<close>

definition Math_max :: "jsnum \<Rightarrow> jsnum \<Rightarrow> jsnum" where
  "Math_max a b = (if a = NaN \<or> b = NaN then NaN else if num_le a b then b else a)"

definition Math_min :: "jsnum \<Rightarrow> jsnum \<Rightarrow> jsnum" where
  "Math_min a b = (if a = NaN \<or> b = NaN then NaN else if num_le a b then a else b)"

text \<open>
  The values \<open>JSON.parse\<close> returns, and \<open>undefined\<close>, which reading a missing property
  yields. \<open>JObj\<close> lists the own properties of the object; \<open>map_of\<close> reads them.
\<close>

datatype jsval =
    JUndefined
  | JNull
  | JBool bool
  | JNum jsnum
  | JStr jsstring
  | JArr "jsval list"
  | JObj "(jsstring \<times> jsval) list"

datatype error = TypeError

definition bindE :: "error + 'a \<Rightarrow> ('a \<Rightarrow> error + 'b) \<Rightarrow> error + 'b" where
  "bindE m f = (case m of Inl e \<Rightarrow> Inl e | Inr x \<Rightarrow> f x)"

text \<open>
  \<open>v.name\<close>: a TypeError on \<open>null\<close> and \<open>undefined\<close>; the own property of an object, or
  \<open>undefined\<close>; \<open>length\<close> of an array or a string. This is what JavaScript does for every
  name that is not an array index and not a member of a built-in prototype, which holds of
  all names processAIResponse reads except \<open>length\<close>.
\<close>

fun getProp :: "jsval \<Rightarrow> jsstring \<Rightarrow> error + jsval" where
  "getProp JUndefined name = Inl TypeError"
| "getProp JNull name = Inl TypeError"
| "getProp (JObj kvs) name =
     (case map_of kvs name of Some v \<Rightarrow> Inr v | None \<Rightarrow> Inr JUndefined)"
| "getProp (JArr xs) name =
     (if name = js ''length'' then Inr (JNum (Fin (real (length xs)))) else Inr JUndefined)"
| "getProp (JStr s) name =
     (if name = js ''length'' then Inr (JNum (Fin (real (length s)))) else Inr JUndefined)"
| "getProp (JBool b) name = Inr JUndefined"
| "getProp (JNum n) name = Inr JUndefined"

text \<open>\<open>v?.name\<close>: \<open>undefined\<close> when \<open>v\<close> is \<open>null\<close> or \<open>undefined\<close>.\<close>

definition getOpt :: "jsval \<Rightarrow> jsstring \<Rightarrow> error + jsval" where
  "getOpt v name = (if v = JUndefined \<or> v = JNull then Inr JUndefined else getProp v name)"

fun truthy :: "jsval \<Rightarrow> bool" where
  "truthy JUndefined = False"
| "truthy JNull = False"
| "truthy (JBool b) = b"
| "truthy (JNum n) = (n \<noteq> NaN \<and> n \<noteq> Fin 0)"
| "truthy (JStr s) = (s \<noteq> [])"
| "truthy (JArr xs) = True"
| "truthy (JObj kvs) = True"

text \<open>\<open>a || b\<close>, both operands already evaluated (neither has an effect here).\<close>

definition or_else :: "jsval \<Rightarrow> jsval \<Rightarrow> jsval" where
  "or_else a b = (if truthy a then a else b)"

subsection \<open>Conversion of a string to a number\<close>

text \<open>White space and line terminators: what \<open>trim\<close>, \<open>\s\<close> and the conversion skip.\<close>

definition isWhiteSpace :: "nat \<Rightarrow> bool" where
  "isWhiteSpace c \<longleftrightarrow>
     (9 \<le> c \<and> c \<le> 13) \<or> c = 32 \<or> c = 160 \<or> c = 5760 \<or> (8192 \<le> c \<and> c \<le> 8202)
     \<or> c = 8232 \<or> c = 8233 \<or> c = 8239 \<or> c = 8287 \<or> c = 12288 \<or> c = 65279"

definition trim :: "jsstring \<Rightarrow> jsstring" where
  "trim s = rev (dropWhile isWhiteSpace (rev (dropWhile isWhiteSpace s)))"

definition isDigit :: "nat \<Rightarrow> bool" where
  "isDigit c \<longleftrightarrow> 48 \<le> c \<and> c \<le> 57"

text \<open>The value of a digit in a base up to 16, if it is one.\<close>

definition digitValue :: "nat \<Rightarrow> nat \<Rightarrow> nat option" where
  "digitValue base c =
     (let v = (if 48 \<le> c \<and> c \<le> 57 then Some (c - 48)
               else if 97 \<le> c \<and> c \<le> 102 then Some (c - 87)
               else if 65 \<le> c \<and> c \<le> 70 then Some (c - 55)
               else None)
      in case v of Some d \<Rightarrow> if d < base then Some d else None | None \<Rightarrow> None)"

fun digitsValue :: "nat \<Rightarrow> nat \<Rightarrow> jsstring \<Rightarrow> nat option" where
  "digitsValue base acc [] = Some acc"
| "digitsValue base acc (c # cs) =
     (case digitValue base c of
        None \<Rightarrow> None
      | Some d \<Rightarrow> digitsValue base (acc * base + d) cs)"

text \<open>A non-empty run of digits of the base, and nothing else.\<close>

definition numeral_of :: "nat \<Rightarrow> jsstring \<Rightarrow> nat option" where
  "numeral_of base s = (if s = [] then None else digitsValue base 0 s)"

text \<open>The exponent part that may follow a decimal mantissa: nothing, or e, a sign, digits.\<close>

definition exponentPart :: "jsstring \<Rightarrow> int option" where
  "exponentPart s =
     (case s of
        [] \<Rightarrow> Some 0
      | c # r \<Rightarrow>
          if c = 101 \<or> c = 69 then
            (case r of
               [] \<Rightarrow> None
             | d # r' \<Rightarrow>
                 if d = 43 then map_option int (numeral_of 10 r')
                 else if d = 45 then map_option (\<lambda>n. - int n) (numeral_of 10 r')
                 else map_option int (numeral_of 10 r))
          else None)"

text \<open>
  A signed decimal literal: digits, an optional point and digits (one of the two runs is
  not empty), an optional exponent. Its value is the digits as an integer times a power
  of ten, rounded to binary64. (For a literal of more than 20 significant digits the
  language lets an implementation round a truncated value instead; the exact value is
  rounded here.)
\<close>

definition decimalLiteral :: "jsstring \<Rightarrow> jsnum" where
  "decimalLiteral t =
     (let neg = (case t of c # _ \<Rightarrow> c = 45 | [] \<Rightarrow> False);
          u = (case t of c # r \<Rightarrow> if c = 43 \<or> c = 45 then r else t | [] \<Rightarrow> t);
          ip = takeWhile isDigit u;
          r1 = dropWhile isDigit u;
          fp = (case r1 of c # r \<Rightarrow> if c = 46 then takeWhile isDigit r else [] | [] \<Rightarrow> []);
          r2 = (case r1 of c # r \<Rightarrow> if c = 46 then dropWhile isDigit r else r1 | [] \<Rightarrow> r1)
      in if ip = [] \<and> fp = [] then NaN
         else case exponentPart r2 of
                None \<Rightarrow> NaN
              | Some e \<Rightarrow>
                  (case digitsValue 10 0 (ip @ fp) of
                     None \<Rightarrow> NaN
                   | Some m \<Rightarrow>
                       (let k = e - int (length fp);
                            v = (if 0 \<le> k then toBinary64 (m * 10 ^ nat k) 1
                                 else toBinary64 m (10 ^ nat (- k)))
                        in if neg then negate v else v)))"

text \<open>
  \<open>StringToNumber\<close> of the language: the trimmed string is empty (0), an infinity, a
  literal in base 16, 8 or 2 with its prefix, or a decimal literal; anything else is NaN.
\<close>

definition StringToNumber :: "jsstring \<Rightarrow> jsnum" where
  "StringToNumber s =
     (let t = trim s in
      if t = [] then Fin 0
      else if t = js ''Infinity'' \<or> t = js ''+Infinity'' then PosInf
      else if t = js ''-Infinity'' then NegInf
      else if take 2 t = js ''0x'' \<or> take 2 t = js ''0X'' then
        (case numeral_of 16 (drop 2 t) of Some n \<Rightarrow> toBinary64 n 1 | None \<Rightarrow> NaN)
      else if take 2 t = js ''0o'' \<or> take 2 t = js ''0O'' then
        (case numeral_of 8 (drop 2 t) of Some n \<Rightarrow> toBinary64 n 1 | None \<Rightarrow> NaN)
      else if take 2 t = js ''0b'' \<or> take 2 t = js ''0B'' then
        (case numeral_of 2 (drop 2 t) of Some n \<Rightarrow> toBinary64 n 1 | None \<Rightarrow> NaN)
      else decimalLiteral t)"

subsection \<open>Conversion of a value to a number\<close>

text \<open>
  \<open>ToString\<close> of a parsed object calls the inherited \<open>toString\<close> and gives
  '[object Object]', unless the object has an own property \<open>toString\<close>: a parsed value is
  never callable, and then neither \<open>toString\<close> nor \<open>valueOf\<close> yields a primitive, which is
  a TypeError. \<open>ToString\<close> of an array joins the strings of its elements with commas.
\<close>

fun toStringThrows :: "jsval \<Rightarrow> bool" where
  "toStringThrows (JObj kvs) = (js ''toString'' \<in> set (map fst kvs))"
| "toStringThrows (JArr xs) = list_ex toStringThrows xs"
| "toStringThrows _ = False"

text \<open>
  \<open>ToNumber\<close> where it does not throw. An object becomes '[object Object]', which is no
  number. An array becomes the join of its elements: the empty string for no element, a
  string with a comma (no number) for two or more, and the string of the element for one;
  \<open>null\<close> and \<open>undefined\<close> elements give the empty string, and the string of a number
  converts back to that number.
\<close>

fun numberOf :: "jsval \<Rightarrow> jsnum" where
  "numberOf JUndefined = NaN"
| "numberOf JNull = Fin 0"
| "numberOf (JBool b) = (if b then Fin 1 else Fin 0)"
| "numberOf (JNum n) = n"
| "numberOf (JStr s) = StringToNumber s"
| "numberOf (JObj kvs) = NaN"
| "numberOf (JArr []) = Fin 0"
| "numberOf (JArr [JUndefined]) = Fin 0"
| "numberOf (JArr [JNull]) = Fin 0"
| "numberOf (JArr [JBool b]) = NaN"
| "numberOf (JArr [JNum n]) = n"
| "numberOf (JArr [JStr s]) = StringToNumber s"
| "numberOf (JArr [JObj kvs]) = NaN"
| "numberOf (JArr [JArr ys]) = numberOf (JArr ys)"
| "numberOf (JArr (x # y # zs)) = NaN"

definition ToNumber :: "jsval \<Rightarrow> error + jsnum" where
  "ToNumber v = (if toStringThrows v then Inl TypeError else Inr (numberOf v))"

section \<open>aiScorer.processAIResponse\<close>

record BasicInfo =
  candidateName :: "jsstring option"
  email :: "jsstring option"
  phone :: "jsstring option"
  location :: "jsstring option"

record Breakdown =
  skills :: jsnum
  experience :: jsnum
  education :: jsnum
  relevance :: jsnum

text \<open>
  The object processAIResponse returns. The list fields hold whatever elements the reply
  had, \<open>summary\<close> and \<open>keywordsMatched\<close> whatever value the expression of the source
  yields, so they are values, not strings or numbers.
\<close>

record ScoringResult =
  overallScore :: jsnum
  breakdown :: Breakdown
  strengths :: "jsval list"
  weaknesses :: "jsval list"
  keywordMatches :: "jsval list"
  experienceYears :: jsnum
  summary :: jsval
  recommendations :: "jsval list"
  redFlags :: "jsval list"
  fitScore :: jsnum
  candidateName :: "jsstring option"
  keywordsMatched :: jsval

definition zeroVal :: jsval where
  "zeroVal = JNum (Fin 0)"

text \<open>\<open>Math.min(100, Math.max(0, v))\<close>; both functions convert their arguments.\<close>

definition clampScore :: "jsval \<Rightarrow> error + jsnum" where
  "clampScore v = bindE (ToNumber v) (\<lambda>n. Inr (Math_min (Fin 100) (Math_max (Fin 0) n)))"

text \<open>\<open>Math.min(100, Math.max(0, aiResponse.breakdown?.name || 0))\<close>\<close>

definition breakdownScore :: "jsval \<Rightarrow> jsstring \<Rightarrow> error + jsnum" where
  "breakdownScore aiResponse name =
     bindE (getProp aiResponse (js ''breakdown'')) (\<lambda>b.
     bindE (getOpt b name) (\<lambda>v.
     clampScore (or_else v zeroVal)))"

text \<open>\<open>Array.isArray(aiResponse.name) ? aiResponse.name.slice(0, n) : []\<close>\<close>

definition sliced :: "jsval \<Rightarrow> jsstring \<Rightarrow> nat \<Rightarrow> error + jsval list" where
  "sliced aiResponse name n =
     bindE (getProp aiResponse name) (\<lambda>v.
     Inr (case v of JArr xs \<Rightarrow> take n xs | _ \<Rightarrow> []))"

text \<open>
  The object literal of lines 135 to 153, its fields evaluated in the order of the source;
  the first TypeError leaves the \<open>try\<close> block.
\<close>

definition processed :: "jsval \<Rightarrow> BasicInfo \<Rightarrow> error + ScoringResult" where
  "processed aiResponse basicInfo =
     bindE (getProp aiResponse (js ''overallScore'')) (\<lambda>os.
     bindE (clampScore (or_else os zeroVal)) (\<lambda>overallScore'.
     bindE (breakdownScore aiResponse (js ''skills'')) (\<lambda>skills'.
     bindE (breakdownScore aiResponse (js ''experience'')) (\<lambda>experience'.
     bindE (breakdownScore aiResponse (js ''education'')) (\<lambda>education'.
     bindE (breakdownScore aiResponse (js ''relevance'')) (\<lambda>relevance'.
     bindE (sliced aiResponse (js ''strengths'') 10) (\<lambda>strengths'.
     bindE (sliced aiResponse (js ''weaknesses'') 10) (\<lambda>weaknesses'.
     bindE (sliced aiResponse (js ''keywordMatches'') 20) (\<lambda>keywordMatches'.
     bindE (getProp aiResponse (js ''experienceYears'')) (\<lambda>ey.
     bindE (ToNumber (or_else ey zeroVal)) (\<lambda>eyn.
     bindE (getProp aiResponse (js ''summary'')) (\<lambda>sm.
     bindE (sliced aiResponse (js ''recommendations'') 5) (\<lambda>recommendations'.
     bindE (sliced aiResponse (js ''redFlags'') 5) (\<lambda>redFlags'.
     bindE (getProp aiResponse (js ''fitScore'')) (\<lambda>fs.
     bindE (getProp aiResponse (js ''overallScore'')) (\<lambda>os2.
     bindE (clampScore (or_else (or_else fs os2) zeroVal)) (\<lambda>fitScore'.
     bindE (getProp aiResponse (js ''keywordMatches'')) (\<lambda>km.
     bindE (getOpt km (js ''length'')) (\<lambda>len.
     Inr \<lparr>overallScore = overallScore',
          breakdown = \<lparr>skills = skills', experience = experience',
                       education = education', relevance = relevance'\<rparr>,
          strengths = strengths',
          weaknesses = weaknesses',
          keywordMatches = keywordMatches',
          experienceYears = Math_max (Fin 0) eyn,
          summary = or_else sm (JStr (js ''Resume analyzed successfully.'')),
          recommendations = recommendations',
          redFlags = redFlags',
          fitScore = fitScore',
          candidateName = BasicInfo.candidateName basicInfo,
          keywordsMatched = or_else len zeroVal\<rparr>)))))))))))))))))))"

text \<open>The object literal of the \<open>catch\<close> block, lines 161 to 174.\<close>

definition fallback :: "BasicInfo \<Rightarrow> ScoringResult" where
  "fallback basicInfo =
     \<lparr>overallScore = Fin 50,
      breakdown = \<lparr>skills = Fin 50, experience = Fin 50,
                   education = Fin 50, relevance = Fin 50\<rparr>,
      strengths = [JStr (js ''Resume processed'')],
      weaknesses = [JStr (js ''Unable to complete full analysis'')],
      keywordMatches = [],
      experienceYears = Fin 0,
      summary = JStr (js ''Basic analysis completed with limited AI processing.''),
      recommendations = [JStr (js ''Manual review recommended'')],
      redFlags = [],
      fitScore = Fin 50,
      candidateName = BasicInfo.candidateName basicInfo,
      keywordsMatched = zeroVal\<rparr>"

text \<open>
  processAIResponse: the \<open>try\<close> block, and the fallback when it throws. \<open>basicInfo\<close> is
  the object extractBasicInfo returned, so reading its \<open>candidateName\<close> does not throw.
  The calls of the logger are not modelled.
\<close>

definition processAIResponse :: "jsval \<Rightarrow> BasicInfo \<Rightarrow> ScoringResult" where
  "processAIResponse aiResponse basicInfo =
     (case processed aiResponse basicInfo of
        Inr result \<Rightarrow> result
      | Inl e \<Rightarrow> fallback basicInfo)"

section \<open>pdfParser.validatePDF\<close>

text \<open>
  The result object \<open>{ isValid, error }\<close>; \<open>error\<close> is absent on success.
\<close>

record pdf_validation =
  isValid :: bool
  error :: "jsstring option"

text \<open>
  \<open>pdf\<close> is the pdf-parse library: given the buffer it either throws (\<open>Inl\<close> the
  message of the error) or returns. The second component of the result of \<open>validatePDF\<close>
  lists the buffers handed to the library, in order: it makes the call of line 264 visible.

  Line 253 decodes the first four bytes as UTF-8 and compares the string with '%PDF'.
  A byte below 128 decodes to itself and any other byte decodes to a character above 127,
  so the decoded string is '%PDF' exactly when the slice is the four bytes 25 50 44 46
  (hexadecimal); the model compares the slice itself.
\<close>

definition pdfMagic :: "byte list" where
  "pdfMagic = [0x25, 0x50, 0x44, 0x46]"

definition validatePDF ::
  "(byte list \<Rightarrow> jsstring + unit) \<Rightarrow> byte list \<Rightarrow> pdf_validation \<times> byte list list" where
  "validatePDF pdf buffer =
     (let pdfSignature = take 4 buffer in
      if pdfSignature \<noteq> pdfMagic then
        (\<lparr>isValid = False, error = Some (js ''Invalid PDF signature'')\<rparr>, [])
      else if length buffer < 1024 then
        (\<lparr>isValid = False, error = Some (js ''File too small to be a valid PDF'')\<rparr>, [])
      else
        (case pdf buffer of
           Inr _ \<Rightarrow> (\<lparr>isValid = True, error = None\<rparr>, [buffer])
         | Inl message \<Rightarrow>
             (\<lparr>isValid = False, error = Some (js ''PDF validation failed: '' @ message)\<rparr>,
              [buffer])))"

section \<open>Regular expressions\<close>

text \<open>
  The regular expressions of the source, as syntax trees. A character class is a list of
  ranges of code units. \<open>Star\<close> is the greedy \<open>*\<close> on a class, \<open>Opt\<close> the greedy \<open>?\<close>;
  \<open>x+\<close> is written \<open>x\<close> followed by \<open>x*\<close>, and \<open>x{n,}\<close> as \<open>n\<close> times \<open>x\<close> followed by
  \<open>x*\<close>.
  \<open>Bol\<close> and \<open>Eol\<close> are \<open>^\<close> and \<open>$\<close> under the flag \<open>m\<close>, \<open>Bos\<close> is \<open>^\<close> without
  it, \<open>WordB\<close> is \<open>\b\<close>. Groups only delimit here (no pattern has a back reference and the
  code reads whole matches only), so they leave no trace in the tree.
\<close>

datatype regex =
    Chars "(nat \<times> nat) list"
  | Star "(nat \<times> nat) list"
  | Seq regex regex
  | Alt regex regex
  | Opt regex
  | Empty
  | Bol
  | Eol
  | Bos
  | WordB

text \<open>
  A position in the subject: the code unit before it, if any, and the rest of the string.
\<close>

type_synonym pos = "nat option \<times> jsstring"

definition inRanges :: "(nat \<times> nat) list \<Rightarrow> nat \<Rightarrow> bool" where
  "inRanges rs c = list_ex (\<lambda>(lo, hi). lo \<le> c \<and> c \<le> hi) rs"

definition toUpperAscii :: "nat \<Rightarrow> nat" where
  "toUpperAscii c = (if 97 \<le> c \<and> c \<le> 122 then c - 32 else c)"

definition toLowerAscii :: "nat \<Rightarrow> nat" where
  "toLowerAscii c = (if 65 \<le> c \<and> c \<le> 90 then c + 32 else c)"

text \<open>
  Membership in a class; \<open>ic\<close> is the flag \<open>i\<close>. Without the flag \<open>u\<close> a code unit above
  127 is never folded to one below 128, and every class of the source that is used with
  \<open>i\<close> has ASCII letters only, so folding the ASCII letters is all the flag does here.
\<close>

definition inClass :: "bool \<Rightarrow> (nat \<times> nat) list \<Rightarrow> nat \<Rightarrow> bool" where
  "inClass ic rs c =
     (inRanges rs c \<or> (ic \<and> (inRanges rs (toUpperAscii c) \<or> inRanges rs (toLowerAscii c))))"

definition isLineTerminator :: "nat \<Rightarrow> bool" where
  "isLineTerminator c \<longleftrightarrow> c = 10 \<or> c = 13 \<or> c = 8232 \<or> c = 8233"

definition isWordChar :: "nat \<Rightarrow> bool" where
  "isWordChar c \<longleftrightarrow>
     (48 \<le> c \<and> c \<le> 57) \<or> (65 \<le> c \<and> c \<le> 90) \<or> c = 95 \<or> (97 \<le> c \<and> c \<le> 122)"

text \<open>
  The backtracking matcher: every position at which a match of the expression that starts
  at the given position can end, in the order in which backtracking tries them (longest
  first for a greedy operator, left alternative first).
\<close>

fun starEnds :: "bool \<Rightarrow> (nat \<times> nat) list \<Rightarrow> nat option \<Rightarrow> jsstring \<Rightarrow> pos list" where
  "starEnds ic rs p [] = [(p, [])]"
| "starEnds ic rs p (c # cs) =
     (if inClass ic rs c then starEnds ic rs (Some c) cs @ [(p, c # cs)] else [(p, c # cs)])"

fun ends :: "bool \<Rightarrow> regex \<Rightarrow> pos \<Rightarrow> pos list" where
  "ends ic (Chars rs) (p, s) =
     (case s of [] \<Rightarrow> [] | c # cs \<Rightarrow> if inClass ic rs c then [(Some c, cs)] else [])"
| "ends ic (Star rs) (p, s) = starEnds ic rs p s"
| "ends ic (Seq a b) x = concat (map (ends ic b) (ends ic a x))"
| "ends ic (Alt a b) x = ends ic a x @ ends ic b x"
| "ends ic (Opt a) x = ends ic a x @ [x]"
| "ends ic Empty x = [x]"
| "ends ic Bol (p, s) =
     (case p of None \<Rightarrow> [(p, s)] | Some c \<Rightarrow> if isLineTerminator c then [(p, s)] else [])"
| "ends ic Eol (p, s) =
     (case s of [] \<Rightarrow> [(p, s)] | c # cs \<Rightarrow> if isLineTerminator c then [(p, s)] else [])"
| "ends ic Bos (p, s) = (case p of None \<Rightarrow> [(p, s)] | Some c \<Rightarrow> [])"
| "ends ic WordB (p, s) =
     (if (case p of None \<Rightarrow> False | Some c \<Rightarrow> isWordChar c)
         \<noteq> (case s of [] \<Rightarrow> False | c # cs \<Rightarrow> isWordChar c)
      then [(p, s)] else [])"

text \<open>The match at this position, if there is one: where the first way to match ends.\<close>

definition matchHere :: "bool \<Rightarrow> regex \<Rightarrow> pos \<Rightarrow> pos option" where
  "matchHere ic re x = (case ends ic re x of [] \<Rightarrow> None | y # _ \<Rightarrow> Some y)"

text \<open>
  \<open>s.replace(re, rep)\<close> for an expression with the flag \<open>g\<close> and a replacement without
  \<open>$\<close>: the leftmost match is replaced and the search goes on where it ended; after an
  empty match it goes on one code unit further.
\<close>

function replaceAll ::
  "bool \<Rightarrow> regex \<Rightarrow> jsstring \<Rightarrow> nat option \<Rightarrow> jsstring \<Rightarrow> jsstring" where
  "replaceAll ic re rep p [] =
     (case matchHere ic re (p, []) of Some y \<Rightarrow> rep | None \<Rightarrow> [])"
| "replaceAll ic re rep p (c # cs) =
     (case matchHere ic re (p, c # cs) of
        Some (p', s') \<Rightarrow>
          if length s' \<le> length cs then rep @ replaceAll ic re rep p' s'
          else rep @ c # replaceAll ic re rep (Some c) cs
      | None \<Rightarrow> c # replaceAll ic re rep (Some c) cs)"
  by pat_completeness auto
termination
  by (relation "measure (\<lambda>(ic, re, rep, p, s). length s)") auto

text \<open>
  \<open>s.match(re)\<close> for an expression with the flag \<open>g\<close>: the matched substrings from left
  to right. JavaScript returns \<open>null\<close> where this list is empty.
\<close>

function matchAll :: "bool \<Rightarrow> regex \<Rightarrow> nat option \<Rightarrow> jsstring \<Rightarrow> jsstring list" where
  "matchAll ic re p [] =
     (case matchHere ic re (p, []) of Some y \<Rightarrow> [[]] | None \<Rightarrow> [])"
| "matchAll ic re p (c # cs) =
     (case matchHere ic re (p, c # cs) of
        Some (p', s') \<Rightarrow>
          if length s' \<le> length cs
          then take (Suc (length cs) - length s') (c # cs) # matchAll ic re p' s'
          else [] # matchAll ic re (Some c) cs
      | None \<Rightarrow> matchAll ic re (Some c) cs)"
  by pat_completeness auto
termination
  by (relation "measure (\<lambda>(ic, re, p, s). length s)") auto

text \<open>\<open>s.match(re)[0]\<close> for an expression without \<open>g\<close>: the leftmost match, or none.\<close>

fun firstMatch :: "bool \<Rightarrow> regex \<Rightarrow> nat option \<Rightarrow> jsstring \<Rightarrow> jsstring option" where
  "firstMatch ic re p [] =
     (case matchHere ic re (p, []) of Some y \<Rightarrow> Some [] | None \<Rightarrow> None)"
| "firstMatch ic re p (c # cs) =
     (case matchHere ic re (p, c # cs) of
        Some (p', s') \<Rightarrow> Some (take (Suc (length cs) - length s') (c # cs))
      | None \<Rightarrow> firstMatch ic re (Some c) cs)"

text \<open>\<open>re.test(s)\<close> for a fresh expression: is there a match anywhere.\<close>

fun test :: "bool \<Rightarrow> regex \<Rightarrow> nat option \<Rightarrow> jsstring \<Rightarrow> bool" where
  "test ic re p [] = (matchHere ic re (p, []) \<noteq> None)"
| "test ic re p (c # cs) =
     (if matchHere ic re (p, c # cs) \<noteq> None then True else test ic re (Some c) cs)"

text \<open>\<open>s.replace(re, rep)\<close> for an expression without \<open>g\<close>: the leftmost match only.\<close>

fun replaceFirst ::
  "bool \<Rightarrow> regex \<Rightarrow> jsstring \<Rightarrow> nat option \<Rightarrow> jsstring \<Rightarrow> jsstring" where
  "replaceFirst ic re rep p [] =
     (case matchHere ic re (p, []) of Some y \<Rightarrow> rep | None \<Rightarrow> [])"
| "replaceFirst ic re rep p (c # cs) =
     (case matchHere ic re (p, c # cs) of
        Some (p', s') \<Rightarrow> rep @ s'
      | None \<Rightarrow> c # replaceFirst ic re rep (Some c) cs)"

subsection \<open>Building blocks of the patterns\<close>

definition ch :: "char \<Rightarrow> (nat \<times> nat) list" where
  "ch c = [(of_char c, of_char c)]"

definition lit :: "string \<Rightarrow> regex" where
  "lit s = foldr (\<lambda>c r. Seq (Chars (ch c)) r) s Empty"

definition oneOrMore :: "(nat \<times> nat) list \<Rightarrow> regex" where
  "oneOrMore rs = Seq (Chars rs) (Star rs)"

fun seqs :: "regex list \<Rightarrow> regex" where
  "seqs [] = Empty"
| "seqs (r # rs) = Seq r (seqs rs)"

fun alts :: "regex list \<Rightarrow> regex" where
  "alts [] = Empty"
| "alts [r] = r"
| "alts (r # rs) = Alt r (alts rs)"

text \<open>\<open>\d\<close>, \<open>\s\<close> and \<open>[\s\S]\<close>.\<close>

definition digit :: "(nat \<times> nat) list" where
  "digit = [(48, 57)]"

definition space :: "(nat \<times> nat) list" where
  "space = [(9, 13), (32, 32), (160, 160), (5760, 5760), (8192, 8202), (8232, 8233),
            (8239, 8239), (8287, 8287), (12288, 12288), (65279, 65279)]"

definition anyUnit :: "(nat \<times> nat) list" where
  "anyUnit = [(0, 65535)]"

text \<open>The class of one code unit, given by its number or as a character.\<close>

definition unit :: "nat \<Rightarrow> (nat \<times> nat) list" where
  "unit n = [(n, n)]"

section \<open>sanitizeText\<close>

text \<open>
  Lines 281 to 324. The replacements are applied in the order of the source, each to the
  result of the one before. The argument is any value: the guard of line 282 returns the
  empty string for a value that is falsy or not a string.
\<close>

definition sanitizeText :: "jsval \<Rightarrow> jsstring" where
  "sanitizeText text =
     (case text of
        JStr s \<Rightarrow>
          if s = [] then []
          else
            (let cleaned = s;
                 cleaned = replaceAll False (seqs [Chars (unit 13), Chars (unit 10)]) [10] None cleaned;
                 cleaned = replaceAll False (Chars (unit 13)) [10] None cleaned;
                 cleaned = replaceAll False
                   (seqs [Chars (unit 10), Chars (unit 10), Chars (unit 10), Star (unit 10)])
                   [10, 10] None cleaned;
                 cleaned = replaceAll False
                   (seqs [Chars (unit 32 @ unit 9), Chars (unit 32 @ unit 9), Star (unit 32 @ unit 9)])
                   [32] None cleaned;
                 cleaned = replaceAll False (Chars (unit 12)) [] None cleaned;
                 cleaned = replaceAll False (Chars (unit 160)) [32] None cleaned;
                 cleaned = replaceAll False (Chars (unit 8226)) [8226] None cleaned;
                 cleaned = replaceAll False (Chars (unit 8211)) (js ''-'') None cleaned;
                 cleaned = replaceAll False (Chars (unit 8212)) (js ''--'') None cleaned;
                 cleaned = replaceAll False (Chars (unit 34 @ unit 34)) [34] None cleaned;
                 cleaned = replaceAll False (Chars (unit 39 @ unit 39)) [39] None cleaned;
                 cleaned = replaceAll False (Chars (unit 8230)) (js ''...'') None cleaned;
                 cleaned = replaceAll False
                   (seqs [Chars (ch CHR ''.''), Chars (ch CHR ''.''), Chars (ch CHR ''.''),
                          Chars (ch CHR ''.''), Star (ch CHR ''.'')])
                   (js ''...'') None cleaned;
                 cleaned = replaceAll False
                   (seqs [Chars (ch CHR ''-''), Chars (ch CHR ''-''), Chars (ch CHR ''-''),
                          Star (ch CHR ''-'')])
                   (js ''--'') None cleaned;
                 cleaned = replaceAll False
                   (seqs [Chars (ch CHR ''_''), Chars (ch CHR ''_''), Chars (ch CHR ''_''),
                          Star (ch CHR ''_'')])
                   (js ''__'') None cleaned;
                 cleaned = replaceAll False
                   (seqs [Bol, Star space, lit ''Page '', oneOrMore digit, lit '' of '',
                          oneOrMore digit, Star space, Eol])
                   [] None cleaned;
                 cleaned = replaceAll False
                   (seqs [Bol, Star space, oneOrMore digit, Star space, Eol]) [] None cleaned;
                 cleaned = replaceAll False
                   (seqs [lit ''Confidential and Proprietary'', Star anyUnit, Eol])
                   [] None cleaned;
                 cleaned = replaceAll False
                   (seqs [lit ''This email and any attachments'', Star anyUnit, Eol])
                   [] None cleaned;
                 cleaned = trim cleaned;
                 cleaned = replaceAll False
                   (seqs [Chars (unit 10), Star space, Chars (unit 10), Star space, Chars (unit 10)])
                   [10, 10] None cleaned
             in cleaned)
      | _ \<Rightarrow> [])"

section \<open>pdfParser.extractExperience\<close>

record ExperienceInfo =
  totalYears :: jsnum
  companies :: "jsstring list"
  positions :: "jsstring list"

text \<open>The three patterns of lines 196 to 200; all have the flags \<open>g\<close> and \<open>i\<close>.\<close>

definition experiencePatterns :: "regex list" where
  "experiencePatterns =
     [seqs [oneOrMore digit, Opt (Chars (ch CHR ''+'')), Star space,
            lit ''year'', Opt (Chars (ch CHR ''s'')), Star space,
            Opt (seqs [lit ''of'', Star space]), lit ''experience''],
      seqs [lit ''experience'', Star (ch CHR '':'' @ space), oneOrMore digit,
            Opt (Chars (ch CHR ''+'')), Star space, lit ''year'', Opt (Chars (ch CHR ''s''))],
      seqs [oneOrMore digit, Opt (Chars (ch CHR ''+'')), Star space,
            lit ''year'', Opt (Chars (ch CHR ''s'')), Star space, lit ''in'']]"

text \<open>The value of a run of decimal digits.\<close>

definition decimal :: "jsstring \<Rightarrow> nat" where
  "decimal ds = foldl (\<lambda>a c. 10 * a + (c - 48)) 0 ds"

definition isHexDigit :: "nat \<Rightarrow> bool" where
  "isHexDigit c \<longleftrightarrow> (48 \<le> c \<and> c \<le> 57) \<or> (65 \<le> c \<and> c \<le> 70) \<or> (97 \<le> c \<and> c \<le> 102)"

definition hexadecimal :: "jsstring \<Rightarrow> nat" where
  "hexadecimal ds =
     foldl (\<lambda>a c. 16 * a + (if c \<le> 57 then c - 48 else if c \<le> 70 then c - 55 else c - 87)) 0 ds"

text \<open>
  \<open>parseInt(s)\<close> without a radix: white space is skipped, then a sign, then the longest
  run of digits is read (of hexadecimal digits after the prefix 0x); NaN if it is empty.
  The result is the number for the integer read: that integer rounded to binary64. (Past
  the 20th significant digit the language lets an implementation read zeros instead; the
  digits are read as they are here.)
\<close>

definition parseInt :: "jsstring \<Rightarrow> jsnum" where
  "parseInt s =
     (let t = dropWhile isWhiteSpace s;
          neg = (case t of c # _ \<Rightarrow> c = 45 | [] \<Rightarrow> False);
          u = (case t of c # r \<Rightarrow> if c = 43 \<or> c = 45 then r else t | [] \<Rightarrow> t);
          hex = (take 2 u = js ''0x'' \<or> take 2 u = js ''0X'');
          ds = (if hex then takeWhile isHexDigit (drop 2 u) else takeWhile isDigit u);
          n = (if hex then hexadecimal ds else decimal ds)
      in if ds = [] then NaN else if neg then negate (toBinary64 n 1) else toBinary64 n 1)"

text \<open>
  \<open>parseInt(match.match(/\d+/)[0])\<close>, line 207: indexing \<open>null\<close> is a TypeError.
\<close>

definition yearsOf :: "jsstring \<Rightarrow> error + jsnum" where
  "yearsOf m =
     (case firstMatch False (oneOrMore digit) None m of
        None \<Rightarrow> Inl TypeError
      | Some ds \<Rightarrow> Inr (parseInt ds))"

text \<open>\<open>a > b\<close> on numbers.\<close>

definition num_gt :: "jsnum \<Rightarrow> jsnum \<Rightarrow> bool" where
  "num_gt a b \<longleftrightarrow> num_le b a \<and> a \<noteq> b"

text \<open>The inner loop of lines 206 to 211 and the outer loop of lines 203 to 213.\<close>

fun scanMatches :: "jsstring list \<Rightarrow> jsnum \<Rightarrow> error + jsnum" where
  "scanMatches [] maxYears = Inr maxYears"
| "scanMatches (m # ms) maxYears =
     bindE (yearsOf m) (\<lambda>years.
     scanMatches ms (if num_gt years maxYears then years else maxYears))"

fun scanPatterns :: "regex list \<Rightarrow> jsstring \<Rightarrow> jsnum \<Rightarrow> error + jsnum" where
  "scanPatterns [] text maxYears = Inr maxYears"
| "scanPatterns (pattern # patterns) text maxYears =
     bindE (scanMatches (matchAll True pattern None text) maxYears) (\<lambda>maxYears'.
     scanPatterns patterns text maxYears')"

text \<open>The company patterns of lines 218 to 221, flags \<open>g\<close> and \<open>i\<close>.\<close>

definition companyName :: regex where
  "companyName =
     seqs [Chars [(65, 90)],
           oneOrMore ([(65, 90), (97, 122)] @ space @ ch CHR ''&'' @ ch CHR ''.'' @ ch CHR '',''
                      @ ch CHR ''-''),
           alts [lit ''Inc'', lit ''LLC'', lit ''Corp'', lit ''Ltd'', lit ''Company'', lit ''Co.'',
                 lit ''Technologies'', lit ''Tech'', lit ''Solutions'', lit ''Systems'',
                 lit ''Group'']]"

definition companyPatterns :: "regex list" where
  "companyPatterns = [seqs [lit ''at'', oneOrMore space, companyName], companyName]"

text \<open>\<open>Set.add\<close>: a set keeps its elements in the order of their first insertion.\<close>

definition setAdd :: "'a list \<Rightarrow> 'a \<Rightarrow> 'a list" where
  "setAdd xs x = (if x \<in> set xs then xs else xs @ [x])"

text \<open>Lines 227 to 232, for one match.\<close>

definition addCompany :: "jsstring list \<Rightarrow> jsstring \<Rightarrow> jsstring list" where
  "addCompany companies' m =
     (let company = trim (replaceFirst True (seqs [Bos, lit ''at'', oneOrMore space]) [] None m)
      in if length company > 3 \<and> length company < 100 then setAdd companies' company
         else companies')"

fun scanCompanies :: "regex list \<Rightarrow> jsstring \<Rightarrow> jsstring list \<Rightarrow> jsstring list" where
  "scanCompanies [] text companies' = companies'"
| "scanCompanies (pattern # patterns) text companies' =
     scanCompanies patterns text (foldl addCompany companies' (matchAll True pattern None text))"

text \<open>
  extractExperience. A value that is not a string has no callable \<open>match\<close>, so line 204
  throws; the \<open>catch\<close> block returns the object of lines 242 to 246.
\<close>

definition extractExperience :: "jsval \<Rightarrow> ExperienceInfo" where
  "extractExperience text =
     (case text of
        JStr s \<Rightarrow>
          (case scanPatterns experiencePatterns s (Fin 0) of
             Inr maxYears \<Rightarrow>
               \<lparr>totalYears = maxYears,
                companies = take 10 (scanCompanies companyPatterns s []),
                positions = []\<rparr>
           | Inl e \<Rightarrow> \<lparr>totalYears = Fin 0, companies = [], positions = []\<rparr>)
      | _ \<Rightarrow> \<lparr>totalYears = Fin 0, companies = [], positions = []\<rparr>)"

section \<open>pdfParser.extractSkills\<close>

definition commonSkills :: "jsstring list" where
  "commonSkills = map js
     [''javascript'', ''python'', ''java'', ''c++'', ''c#'', ''php'', ''ruby'', ''go'', ''rust'',
      ''swift'', ''kotlin'', ''typescript'', ''scala'', ''r'', ''matlab'', ''sql'', ''html'', ''css'',
      ''react'', ''angular'', ''vue'', ''node.js'', ''express'', ''django'', ''flask'', ''spring'',
      ''laravel'', ''rails'', ''asp.net'', ''jquery'', ''bootstrap'', ''tailwind'',
      ''mysql'', ''postgresql'', ''mongodb'', ''redis'', ''elasticsearch'', ''oracle'', ''sqlite'',
      ''aws'', ''azure'', ''gcp'', ''docker'', ''kubernetes'', ''jenkins'', ''git'', ''ci/cd'',
      ''linux'', ''windows'', ''macos'', ''nginx'', ''apache'', ''microservices'', ''api'',
      ''restful'', ''graphql'', ''websockets'', ''tcp/ip'',
      ''leadership'', ''communication'', ''teamwork'', ''problem solving'', ''analytical'',
      ''project management'', ''agile'', ''scrum'', ''kanban'']"

text \<open>
  The expression of line 167: the term between two \<open>\b\<close>. The source escapes the
  metacharacters of the term before it builds the expression, so each code unit of the
  term stands for itself.
\<close>

definition skillRegex :: "jsstring \<Rightarrow> regex" where
  "skillRegex skill = seqs [WordB, foldr (\<lambda>c r. Seq (Chars (unit c)) r) skill Empty, WordB]"

text \<open>The expression of line 173, flag \<open>g\<close> only.\<close>

definition emailRegex :: regex where
  "emailRegex =
     seqs [WordB,
           oneOrMore ([(65, 90), (97, 122), (48, 57)] @ ch CHR ''.'' @ ch CHR ''_'' @ ch CHR ''%''
                      @ ch CHR ''+'' @ ch CHR ''-''),
           Chars (ch CHR ''@''),
           oneOrMore ([(65, 90), (97, 122), (48, 57)] @ ch CHR ''.'' @ ch CHR ''-''),
           Chars (ch CHR ''.''),
           Chars ([(65, 90)] @ ch CHR ''|'' @ [(97, 122)]),
           Chars ([(65, 90)] @ ch CHR ''|'' @ [(97, 122)]),
           Star ([(65, 90)] @ ch CHR ''|'' @ [(97, 122)]),
           WordB]"

text \<open>The loop of lines 166 to 171.\<close>

fun scanSkills :: "jsstring list \<Rightarrow> jsstring \<Rightarrow> jsstring list \<Rightarrow> jsstring list" where
  "scanSkills [] textLower foundSkills = foundSkills"
| "scanSkills (skill # skills') textLower foundSkills =
     scanSkills skills' textLower
       (if test True (skillRegex skill) None textLower then foundSkills @ [skill]
        else foundSkills)"

text \<open>
  extractSkills. \<open>toLowerCase\<close> is the method of the language, a parameter here: its
  Unicode tables are not part of the program. A value that is not a string has no callable
  \<open>toLowerCase\<close>, so line 164 throws and the \<open>catch\<close> block returns the empty list.
  \<open>[...new Set(foundSkills)]\<close> is the fold of \<open>setAdd\<close>.
\<close>

definition extractSkills :: "(jsstring \<Rightarrow> jsstring) \<Rightarrow> jsval \<Rightarrow> jsstring list" where
  "extractSkills toLowerCase text =
     (case text of
        JStr s \<Rightarrow>
          (let foundSkills = scanSkills commonSkills (toLowerCase s) [];
               emails = matchAll False emailRegex None s;
               foundSkills = (if emails \<noteq> [] then foundSkills @ emails else foundSkills)
           in foldl setAdd [] foundSkills)
      | _ \<Rightarrow> [])"

text \<open>\<open>toLowerCase\<close> on a string of ASCII characters.\<close>

definition asciiToLowerCase :: "jsstring \<Rightarrow> jsstring" where
  "asciiToLowerCase s = map toLowerAscii s"

section \<open>aiScorer.scoreResume and batchScoreResumes\<close>

text \<open>
  The text-generation service is a parameter: a function of its state and of the request
  that either throws (\<open>Inl\<close> the message of the error) or returns the parsed reply with
  the token count, and a new state. It stands for lines 20 to 40 and for reading
  \<open>completion.usage.total_tokens\<close>: building the prompt (which does not throw for a
  \<open>basicInfo\<close> object), the call, and \<open>JSON.parse\<close> of the content. The request is given
  as the three arguments the prompt is built from.
\<close>

type_synonym ('w, 'j) service =
  "'w \<Rightarrow> jsstring \<times> 'j \<times> BasicInfo \<Rightarrow> (jsstring + jsval \<times> jsval) \<times> 'w"

definition scoreResume ::
  "('w, 'j) service \<Rightarrow> 'w \<Rightarrow> jsstring \<Rightarrow> 'j \<Rightarrow> BasicInfo
     \<Rightarrow> (jsstring + ScoringResult \<times> jsval) \<times> 'w" where
  "scoreResume api w resumeText jobRequirements basicInfo =
     (case api w (resumeText, jobRequirements, basicInfo) of
        (Inr (aiResponse, tokensUsed), w') \<Rightarrow>
          (Inr (processAIResponse aiResponse basicInfo, tokensUsed), w')
      | (Inl message, w') \<Rightarrow> (Inl (js ''AI scoring failed: '' @ message), w'))"

text \<open>
  A document of the batch; its field \<open>id\<close> is called \<open>resume_id\<close> here.
\<close>

record Resume =
  resume_id :: jsstring
  extractedText :: jsstring
  basicInfo :: BasicInfo

text \<open>
  The two objects pushed to \<open>results\<close>: \<open>Scored i r t\<close> is
  \<open>{ resumeId: i, success: true, ...r, tokensUsed: t }\<close> (no field of the result is called
  \<open>resumeId\<close> or \<open>success\<close>, so the spread overwrites neither) and \<open>Failed i m\<close> is
  \<open>{ resumeId: i, success: false, error: m, overallScore: 0, summary: 'Scoring failed' }\<close>.
\<close>

datatype BatchEntry =
    Scored jsstring ScoringResult jsval
  | Failed jsstring jsstring

fun resumeId :: "BatchEntry \<Rightarrow> jsstring" where
  "resumeId (Scored i r t) = i"
| "resumeId (Failed i m) = i"

fun success :: "BatchEntry \<Rightarrow> bool" where
  "success (Scored i r t) = True"
| "success (Failed i m) = False"

text \<open>
  The loop of lines 181 to 208, with the state of the service threaded through the calls.
  The pause of line 196 is not modelled.
\<close>

fun batchLoop ::
  "('w, 'j) service \<Rightarrow> 'j \<Rightarrow> Resume list \<Rightarrow> BatchEntry list \<Rightarrow> 'w \<Rightarrow> BatchEntry list \<times> 'w" where
  "batchLoop api jobRequirements [] results w = (results, w)"
| "batchLoop api jobRequirements (resume # resumes) results w =
     (case scoreResume api w (extractedText resume) jobRequirements (basicInfo resume) of
        (Inr (result, tokensUsed), w') \<Rightarrow>
          batchLoop api jobRequirements resumes
            (results @ [Scored (resume_id resume) result tokensUsed]) w'
      | (Inl message, w') \<Rightarrow>
          batchLoop api jobRequirements resumes
            (results @ [Failed (resume_id resume) message]) w')"

definition batchScoreResumes ::
  "('w, 'j) service \<Rightarrow> 'w \<Rightarrow> Resume list \<Rightarrow> 'j \<Rightarrow> BatchEntry list \<times> 'w" where
  "batchScoreResumes api w resumes jobRequirements = batchLoop api jobRequirements resumes [] w"

section \<open>Notions used in the statements and proofs\<close>

text \<open>
  The integers matched by the experience patterns, as the specification speaks of them:
  for every match of each of the three patterns over the text, the number its first run of
  digits denotes.
\<close>

definition digitRun :: "jsstring \<Rightarrow> jsstring" where
  "digitRun m = takeWhile isDigit (dropWhile (\<lambda>c. \<not> isDigit c) m)"

definition matchedYears :: "jsstring \<Rightarrow> nat list" where
  "matchedYears text =
     map (\<lambda>m. decimal (digitRun m))
       (concat (map (\<lambda>pattern. matchAll True pattern None text) experiencePatterns))"

text \<open>
  Every match of the expression, wherever it starts, consumes a code unit with the
  property \<open>P\<close>.
\<close>

definition consumes :: "(nat \<Rightarrow> bool) \<Rightarrow> bool \<Rightarrow> regex \<Rightarrow> bool" where
  "consumes P ic re \<longleftrightarrow>
     (\<forall>p s p' s'. (p', s') \<in> set (ends ic re (p, s)) \<longrightarrow>
        (\<exists>u. s = u @ s' \<and> (\<exists>c \<in> set u. P c)))"

text \<open>A string of white space only (the empty string is one).\<close>

definition blank :: "jsstring \<Rightarrow> bool" where
  "blank s \<longleftrightarrow> (\<forall>c \<in> set s. isWhiteSpace c)"

text \<open>
  The outcome of scoreResume for each document of a batch, in order, each call made in the
  state the call before left; and the entry that records an outcome for a document.
\<close>

fun attempts ::
  "('w, 'j) service \<Rightarrow> 'w \<Rightarrow> 'j \<Rightarrow> Resume list \<Rightarrow> (jsstring + ScoringResult \<times> jsval) list" where
  "attempts api w jobRequirements [] = []"
| "attempts api w jobRequirements (resume # resumes) =
     (case scoreResume api w (extractedText resume) jobRequirements (basicInfo resume) of
        (outcome, w') \<Rightarrow> outcome # attempts api w' jobRequirements resumes)"

definition entryFor :: "Resume \<Rightarrow> jsstring + ScoringResult \<times> jsval \<Rightarrow> BatchEntry" where
  "entryFor resume outcome =
     (case outcome of
        Inr (result, tokensUsed) \<Rightarrow> Scored (resume_id resume) result tokensUsed
      | Inl message \<Rightarrow> Failed (resume_id resume) message)"

section \<open>Properties of validatePDF\<close>

text \<open>
  C9. The signature is checked before the size: a buffer whose first four bytes are not
  '%PDF' is rejected with 'Invalid PDF signature' whatever its length, and a buffer that
  starts with '%PDF' and is shorter than 1024 bytes is rejected with
  'File too small to be a valid PDF'; in both cases the parser is not called.
\<close>

theorem validatePDF_signature_before_size:
  "(take 4 buffer \<noteq> pdfMagic \<longrightarrow>
      validatePDF pdf buffer =
        (\<lparr>isValid = False, error = Some (js ''Invalid PDF signature'')\<rparr>, []))
   \<and> (take 4 buffer = pdfMagic \<and> length buffer < 1024 \<longrightarrow>
      validatePDF pdf buffer =
        (\<lparr>isValid = False, error = Some (js ''File too small to be a valid PDF'')\<rparr>, []))"
  by (simp add: validatePDF_def)

theorem validatePDF_signature_before_size_witness:
  "take 4 ((0x47 # 0x49 # 0x46 # 0x38 # replicate 2000 (0::byte))) \<noteq> pdfMagic
   \<and> validatePDF (\<lambda>b. Inr ()) (0x47 # 0x49 # 0x46 # 0x38 # replicate 2000 0) =
        (\<lparr>isValid = False, error = Some (js ''Invalid PDF signature'')\<rparr>, [])
   \<and> take 4 (pdfMagic @ [0x2D, 0x31]) = pdfMagic \<and> length (pdfMagic @ [0x2D, 0x31]) < 1024
   \<and> validatePDF (\<lambda>b. Inr ()) (pdfMagic @ [0x2D, 0x31]) =
        (\<lparr>isValid = False, error = Some (js ''File too small to be a valid PDF'')\<rparr>, [])"
proof -
  have a: "take 4 ((0x47 # 0x49 # 0x46 # 0x38 # replicate 2000 (0::byte))) \<noteq> pdfMagic"
    by (simp add: pdfMagic_def)
  have b: "take 4 (pdfMagic @ [0x2D, 0x31]) = pdfMagic \<and> length (pdfMagic @ [0x2D, 0x31]) < 1024"
    by (simp add: pdfMagic_def)
  from a b
    validatePDF_signature_before_size [of "0x47 # 0x49 # 0x46 # 0x38 # replicate 2000 0" "\<lambda>b. Inr ()"]
    validatePDF_signature_before_size [of "pdfMagic @ [0x2D, 0x31]" "\<lambda>b. Inr ()"]
  show ?thesis by blast
qed

section \<open>Properties of processAIResponse\<close>

lemmas coerce_defs = processed_def bindE_def clampScore_def breakdownScore_def
  sliced_def getOpt_def or_else_def zeroVal_def ToNumber_def Math_min_def Math_max_def js_def

lemma StringToNumber_high: "StringToNumber [104, 105, 103, 104] = NaN"
  by (simp add: StringToNumber_def js_def trim_def isWhiteSpace_def decimalLiteral_def isDigit_def)

lemma processed_candidateName:
  "processed raw info = Inr r \<Longrightarrow> candidateName r = BasicInfo.candidateName info"
  by (auto simp: processed_def bindE_def split: sum.splits)

text \<open>
  C1. A score that is not numeric passes the clamp as NaN, which is not in [0,100], and a
  truthy \<open>summary\<close> of any type is returned as it is: for the reply
  \<open>{"overallScore": "high"}\<close> the result has \<open>overallScore\<close> NaN, and for
  \<open>{"summary": 5}\<close> the \<open>summary\<close> of the result is the number 5.
\<close>

theorem processAIResponse_non_numeric_score:
  "overallScore (processAIResponse (JObj [(js ''overallScore'', JStr (js ''high''))]) info) = NaN
   \<and> \<not> num_le (Fin 0)
        (overallScore (processAIResponse (JObj [(js ''overallScore'', JStr (js ''high''))]) info))
   \<and> summary (processAIResponse (JObj [(js ''summary'', JNum (Fin 5))]) info) = JNum (Fin 5)"
  using StringToNumber_high by (simp add: processAIResponse_def coerce_defs)

text \<open>
  C2. \<open>keywordsMatched\<close> is the length of the list the reply gave, not of the list the
  result keeps: for 21 keywords the result keeps 20 and counts 21.
\<close>

theorem keywordsMatched_counts_untruncated:
  "length (keywordMatches (processAIResponse
       (JObj [(js ''keywordMatches'', JArr (replicate 21 (JStr (js ''k''))))]) info)) = 20
   \<and> keywordsMatched (processAIResponse
       (JObj [(js ''keywordMatches'', JArr (replicate 21 (JStr (js ''k''))))]) info)
     = JNum (Fin 21)"
  by (simp add: processAIResponse_def coerce_defs)

text \<open>
  C3, as stated, fails: for the string 'garbage' no property access throws, so the result
  is built from the defaults of the \<open>try\<close> block (\<open>overallScore\<close> 0), not the fallback.
\<close>

theorem processAIResponse_string_not_fallback:
  "processAIResponse (JStr (js ''garbage''))
     \<lparr>BasicInfo.candidateName = None, email = None, phone = None, location = None\<rparr>
   \<noteq> fallback \<lparr>BasicInfo.candidateName = None, email = None, phone = None, location = None\<rparr>
   \<and> overallScore (processAIResponse (JStr (js ''garbage''))
     \<lparr>BasicInfo.candidateName = None, email = None, phone = None, location = None\<rparr>) = Fin 0"
  by (simp add: processAIResponse_def coerce_defs fallback_def)

text \<open>
  C3, as the code has it. For \<open>null\<close> (and \<open>undefined\<close>) the first property access
  throws and the result is exactly the fallback object. For a string, a number or a boolean
  nothing throws and every field takes its default: all scores 0, \<open>fitScore\<close> 0,
  \<open>experienceYears\<close> 0, \<open>keywordsMatched\<close> 0, the five lists empty and the summary
  'Resume analyzed successfully.'. The function is total, so it raises in neither case.
\<close>

theorem processAIResponse_non_object:
  "processAIResponse JNull info = fallback info
   \<and> processAIResponse JUndefined info = fallback info
   \<and> (let defaults =
          \<lparr>overallScore = Fin 0,
           breakdown = \<lparr>skills = Fin 0, experience = Fin 0,
                        education = Fin 0, relevance = Fin 0\<rparr>,
           strengths = [], weaknesses = [], keywordMatches = [],
           experienceYears = Fin 0,
           summary = JStr (js ''Resume analyzed successfully.''),
           recommendations = [], redFlags = [],
           fitScore = Fin 0,
           candidateName = BasicInfo.candidateName info,
           keywordsMatched = JNum (Fin 0)\<rparr>
       in processAIResponse (JStr s) info = defaults
          \<and> processAIResponse (JNum n) info = defaults
          \<and> processAIResponse (JBool b) info = defaults)"
  by (simp add: processAIResponse_def coerce_defs Let_def)

text \<open>
  C6. The \<open>candidateName\<close> of the result is the one of \<open>basicInfo\<close> on both paths, so two
  replies, however they differ, give the same \<open>candidateName\<close>.
\<close>

theorem candidateName_from_basicInfo:
  "candidateName (processAIResponse raw info) = BasicInfo.candidateName info
   \<and> candidateName (processAIResponse raw info) = candidateName (processAIResponse raw' info)"
proof -
  have "candidateName (processAIResponse x info) = BasicInfo.candidateName info" for x
    by (cases "processed x info")
       (simp_all add: processAIResponse_def fallback_def processed_candidateName)
  then show ?thesis by simp
qed

text \<open>
  C8, as stated, fails: a reply with \<open>fitScore\<close> 0 and \<open>overallScore\<close> 80 has the
  \<open>fitScore\<close> present, its clamp is 0, and the result has 80.
\<close>

theorem fitScore_zero_replaced:
  "fitScore (processAIResponse
      (JObj [(js ''fitScore'', JNum (Fin 0)), (js ''overallScore'', JNum (Fin 80))])
      \<lparr>BasicInfo.candidateName = None, email = None, phone = None, location = None\<rparr>) = Fin 80
   \<and> getProp (JObj [(js ''fitScore'', JNum (Fin 0)), (js ''overallScore'', JNum (Fin 80))])
        (js ''fitScore'') = Inr (JNum (Fin 0))
   \<and> clampScore (JNum (Fin 0)) = Inr (Fin 0)
   \<and> clampScore (JNum (Fin 0)) \<noteq> Inr (fitScore (processAIResponse
      (JObj [(js ''fitScore'', JNum (Fin 0)), (js ''overallScore'', JNum (Fin 80))])
      \<lparr>BasicInfo.candidateName = None, email = None, phone = None, location = None\<rparr>))"
  by (simp add: processAIResponse_def coerce_defs)

lemma processed_fitScore:
  "processed raw info = Inr r \<Longrightarrow>
   getProp raw (js ''fitScore'') = Inr fs \<Longrightarrow>
   getProp raw (js ''overallScore'') = Inr os \<Longrightarrow>
   clampScore (or_else (or_else fs os) zeroVal) = Inr (fitScore r)"
  by (auto simp: processed_def bindE_def split: sum.splits)

text \<open>
  C8, as the code has it. When the \<open>try\<close> block completes, the \<open>fitScore\<close> of the result
  is the clamp of the reply's \<open>fitScore\<close> if that value is truthy, and otherwise the clamp
  of the reply's \<open>overallScore\<close> (or of 0 if that is falsy too): the operator of line 150
  is \<open>||\<close>, so a \<open>fitScore\<close> that is present but falsy (0, \<open>null\<close>, \<open>false\<close>, the empty
  string) is replaced in the same way as an absent one.
\<close>

theorem fitScore_falls_back_when_falsy:
  assumes "\<not> isl (processed raw info)"
    and "getProp raw (js ''fitScore'') = Inr fs"
    and "getProp raw (js ''overallScore'') = Inr os"
  shows "(truthy fs \<longrightarrow>
            clampScore fs = Inr (fitScore (processAIResponse raw info)))
     \<and> (\<not> truthy fs \<longrightarrow>
            clampScore (or_else os zeroVal) = Inr (fitScore (processAIResponse raw info)))"
proof -
  from assms(1) obtain r where r: "processed raw info = Inr r"
    by (cases "processed raw info") auto
  have "fitScore (processAIResponse raw info) = fitScore r"
    by (simp add: processAIResponse_def r)
  with processed_fitScore [OF r assms(2) assms(3)] show ?thesis
    by (auto simp: or_else_def)
qed

theorem fitScore_falls_back_when_falsy_witness:
  "\<not> isl (processed (JObj [(js ''fitScore'', JNum (Fin 70)), (js ''overallScore'', JNum (Fin 80))])
           \<lparr>BasicInfo.candidateName = None, email = None, phone = None, location = None\<rparr>)
   \<and> truthy (JNum (Fin 70))
   \<and> fitScore (processAIResponse
         (JObj [(js ''fitScore'', JNum (Fin 70)), (js ''overallScore'', JNum (Fin 80))])
         \<lparr>BasicInfo.candidateName = None, email = None, phone = None, location = None\<rparr>) = Fin 70
   \<and> \<not> isl (processed (JObj [(js ''fitScore'', JNull), (js ''overallScore'', JNum (Fin 80))])
           \<lparr>BasicInfo.candidateName = None, email = None, phone = None, location = None\<rparr>)
   \<and> \<not> truthy JNull
   \<and> fitScore (processAIResponse
         (JObj [(js ''fitScore'', JNull), (js ''overallScore'', JNum (Fin 80))])
         \<lparr>BasicInfo.candidateName = None, email = None, phone = None, location = None\<rparr>) = Fin 80"
proof -
  let ?bi = "\<lparr>BasicInfo.candidateName = None, email = None, phone = None, location = None\<rparr>"
  let ?a = "JObj [(js ''fitScore'', JNum (Fin 70)), (js ''overallScore'', JNum (Fin 80))]"
  let ?b = "JObj [(js ''fitScore'', JNull), (js ''overallScore'', JNum (Fin 80))]"
  have a1: "\<not> isl (processed ?a ?bi)" by (simp add: coerce_defs)
  have a2: "getProp ?a (js ''fitScore'') = Inr (JNum (Fin 70))" by (simp add: js_def)
  have a3: "getProp ?a (js ''overallScore'') = Inr (JNum (Fin 80))" by (simp add: js_def)
  have b1: "\<not> isl (processed ?b ?bi)" by (simp add: coerce_defs)
  have b2: "getProp ?b (js ''fitScore'') = Inr JNull" by (simp add: js_def)
  have b3: "getProp ?b (js ''overallScore'') = Inr (JNum (Fin 80))" by (simp add: js_def)
  have c: "clampScore (JNum (Fin 70)) = Inr (Fin 70)"
    "clampScore (or_else (JNum (Fin 80)) zeroVal) = Inr (Fin 80)"
    by (simp_all add: coerce_defs)
  from fitScore_falls_back_when_falsy [OF a1 a2 a3] fitScore_falls_back_when_falsy [OF b1 b2 b3]
    a1 b1 c
  show ?thesis by simp
qed


section \<open>Properties of the matcher\<close>

lemma starEnds_suffix:
  "(p', s') \<in> set (starEnds ic rs p s) \<Longrightarrow> \<exists>u. s = u @ s'"
proof (induction s arbitrary: p)
  case Nil
  then show ?case by simp
next
  case (Cons c cs)
  show ?case
  proof (cases "(p', s') = (p, c # cs)")
    case True
    then show ?thesis by simp
  next
    case False
    with Cons.prems have "(p', s') \<in> set (starEnds ic rs (Some c) cs)"
      by (auto split: if_splits)
    from Cons.IH [OF this] obtain u where "cs = u @ s'" by blast
    then have "c # cs = (c # u) @ s'" by simp
    then show ?thesis by blast
  qed
qed

lemma ends_suffix:
  "(p', s') \<in> set (ends ic re (p, s)) \<Longrightarrow> \<exists>u. s = u @ s'"
proof (induction re arbitrary: p s p' s')
  case (Chars rs)
  then show ?case by (auto split: list.splits if_splits)
next
  case (Star rs)
  then show ?case by (auto dest: starEnds_suffix)
next
  case (Seq a b)
  from Seq.prems obtain q t where
    1: "(q, t) \<in> set (ends ic a (p, s))" and 2: "(p', s') \<in> set (ends ic b (q, t))"
    by auto
  from Seq.IH(1) [OF 1] obtain u where "s = u @ t" by blast
  moreover from Seq.IH(2) [OF 2] obtain v where "t = v @ s'" by blast
  ultimately have "s = (u @ v) @ s'" by simp
  then show ?case by blast
next
  case (Alt a b)
  then show ?case by auto
next
  case (Opt a)
  then show ?case by auto
next
  case Empty
  then show ?case by simp
next
  case Bol
  then show ?case by (auto split: option.splits if_splits)
next
  case Eol
  then show ?case by (auto split: list.splits if_splits)
next
  case Bos
  then show ?case by (auto split: option.splits)
next
  case WordB
  then show ?case by (auto split: if_splits)
qed

lemma consumes_Chars:
  assumes "\<And>c. inClass ic rs c \<Longrightarrow> P c"
  shows "consumes P ic (Chars rs)"
  unfolding consumes_def
proof (intro allI impI)
  fix p s p' s'
  assume "(p', s') \<in> set (ends ic (Chars rs) (p, s))"
  then obtain c where "s = [c] @ s'" "inClass ic rs c"
    by (auto split: list.splits if_splits)
  with assms show "\<exists>u. s = u @ s' \<and> (\<exists>c \<in> set u. P c)"
    by (intro exI [of _ "[c]"]) simp
qed

lemma consumes_Seq_left:
  assumes "consumes P ic a"
  shows "consumes P ic (Seq a b)"
  unfolding consumes_def
proof (intro allI impI)
  fix p s p' s'
  assume "(p', s') \<in> set (ends ic (Seq a b) (p, s))"
  then obtain q t where
    1: "(q, t) \<in> set (ends ic a (p, s))" and 2: "(p', s') \<in> set (ends ic b (q, t))"
    by auto
  from assms 1 obtain u where u: "s = u @ t" "\<exists>c \<in> set u. P c"
    unfolding consumes_def by blast
  from ends_suffix [OF 2] obtain v where "t = v @ s'" by blast
  with u have "s = (u @ v) @ s' \<and> (\<exists>c \<in> set (u @ v). P c)" by auto
  then show "\<exists>u. s = u @ s' \<and> (\<exists>c \<in> set u. P c)" by blast
qed

lemma consumes_Seq_right:
  assumes "consumes P ic b"
  shows "consumes P ic (Seq a b)"
  unfolding consumes_def
proof (intro allI impI)
  fix p s p' s'
  assume "(p', s') \<in> set (ends ic (Seq a b) (p, s))"
  then obtain q t where
    1: "(q, t) \<in> set (ends ic a (p, s))" and 2: "(p', s') \<in> set (ends ic b (q, t))"
    by auto
  from ends_suffix [OF 1] obtain u where u: "s = u @ t" by blast
  from assms 2 obtain v where "t = v @ s'" "\<exists>c \<in> set v. P c"
    unfolding consumes_def by blast
  with u have "s = (u @ v) @ s' \<and> (\<exists>c \<in> set (u @ v). P c)" by auto
  then show "\<exists>u. s = u @ s' \<and> (\<exists>c \<in> set u. P c)" by blast
qed

lemma matchHere_consumes:
  assumes "consumes P ic re" and "matchHere ic re (p, s) = Some (p', s')"
  shows "\<exists>u. s = u @ s' \<and> (\<exists>c \<in> set u. P c)"
proof -
  from assms(2) have "(p', s') \<in> set (ends ic re (p, s))"
    by (auto simp: matchHere_def split: list.splits)
  with assms(1) show ?thesis unfolding consumes_def by blast
qed

lemma matchAll_consumes:
  "consumes P ic re \<Longrightarrow> m \<in> set (matchAll ic re p s) \<Longrightarrow> \<exists>c \<in> set m. P c"
proof (induction ic re p s rule: matchAll.induct)
  case (1 ic re p)
  show ?case
  proof (cases "matchHere ic re (p, [])")
    case None
    with 1 show ?thesis by simp
  next
    case (Some y)
    obtain p' s' where y: "y = (p', s')" by (cases y)
    from matchHere_consumes [OF "1.prems"(1) Some [unfolded y]] show ?thesis by auto
  qed
next
  case (2 ic re p c cs)
  show ?case
  proof (cases "matchHere ic re (p, c # cs)")
    case None
    with 2 show ?thesis by simp
  next
    case (Some y)
    obtain p' s' where y: "y = (p', s')" by (cases y)
    from matchHere_consumes [OF "2.prems"(1) Some [unfolded y]]
    obtain u where u: "c # cs = u @ s'" "\<exists>d \<in> set u. P d" by blast
    then have "u \<noteq> []" by auto
    then have "0 < length u" by simp
    moreover from u(1) have "Suc (length cs) = length u + length s'"
      by (metis length_Cons length_append)
    ultimately have len: "length s' \<le> length cs" by linarith
    have tk: "take (Suc (length cs) - length s') (c # cs) = u"
      using u(1) \<open>Suc (length cs) = length u + length s'\<close> by simp
    from "2.prems"(2) Some y len
    have "m = u \<or> m \<in> set (matchAll ic re p' s')"
      by (simp add: tk)
    then show ?thesis
    proof
      assume "m = u"
      with u(2) show ?thesis by simp
    next
      assume "m \<in> set (matchAll ic re p' s')"
      with "2.IH" Some y len "2.prems"(1) show ?thesis by blast
    qed
  qed
qed


section \<open>Properties of sanitizeText\<close>

lemma matchHere_suffix:
  "matchHere ic re (p, s) = Some (p', s') \<Longrightarrow> \<exists>u. s = u @ s'"
  by (rule ends_suffix [of p' s' ic re p s]) (auto simp: matchHere_def split: list.splits)

lemma replaceAll_subset: "set (replaceAll ic re rep p s) \<subseteq> set s \<union> set rep"
proof (induction ic re rep p s rule: replaceAll.induct)
  case (1 ic re rep p)
  then show ?case by (auto split: option.splits)
next
  case (2 ic re rep p c cs)
  show ?case
  proof (cases "matchHere ic re (p, c # cs)")
    case None
    with "2.IH" show ?thesis by auto
  next
    case (Some y)
    obtain p' s' where y: "y = (p', s')" by (cases y)
    from matchHere_suffix [OF Some [unfolded y]] have sub: "set s' \<subseteq> insert c (set cs)"
      by (metis Un_upper2 list.simps(15) set_append)
    show ?thesis
    proof (cases "length s' \<le> length cs")
      case True
      from "2.IH"(2) [OF Some [unfolded y] refl True]
      have "set (replaceAll ic re rep p' s') \<subseteq> set s' \<union> set rep" .
      with sub Some y True show ?thesis by auto
    next
      case False
      from "2.IH"(3) [OF Some [unfolded y] refl False]
      have "set (replaceAll ic re rep (Some c) cs) \<subseteq> set cs \<union> set rep" .
      with Some y False show ?thesis by auto
    qed
  qed
qed

lemma blank_replaceAll: "blank s \<Longrightarrow> blank rep \<Longrightarrow> blank (replaceAll ic re rep p s)"
  using replaceAll_subset [of ic re rep p s] by (auto simp: blank_def)

lemma replaceAll_no_match:
  "consumes P ic re \<Longrightarrow> \<forall>c \<in> set s. \<not> P c \<Longrightarrow> replaceAll ic re rep p s = s"
proof (induction s arbitrary: p)
  case Nil
  have "matchHere ic re (p, []) = None"
  proof (cases "matchHere ic re (p, [])")
    case (Some y)
    obtain p' s' where "y = (p', s')" by (cases y)
    with matchHere_consumes [OF Nil.prems(1), of p "[]" p' s'] Some show ?thesis by auto
  qed simp
  then show ?case by simp
next
  case (Cons c cs)
  have "matchHere ic re (p, c # cs) = None"
  proof (cases "matchHere ic re (p, c # cs)")
    case (Some y)
    obtain p' s' where "y = (p', s')" by (cases y)
    with matchHere_consumes [OF Cons.prems(1), of p "c # cs" p' s'] Some
    obtain u where "c # cs = u @ s'" "\<exists>d \<in> set u. P d" by blast
    then have "\<exists>d \<in> set (c # cs). P d" by (metis Un_iff set_append)
    with Cons.prems(2) show ?thesis by blast
  qed simp
  with Cons show ?case by simp
qed

lemma replaceAll_blank_id:
  "consumes (\<lambda>c. \<not> isWhiteSpace c) ic re \<Longrightarrow> blank s \<Longrightarrow> replaceAll ic re rep p s = s"
  by (rule replaceAll_no_match [where P = "\<lambda>c. \<not> isWhiteSpace c"]) (auto simp: blank_def)

lemma trim_blank: "blank s \<Longrightarrow> trim s = []"
  by (auto simp: trim_def blank_def dest: set_dropWhileD)

lemma consumes_nonblank_Chars:
  "\<forall>(lo, hi) \<in> set rs. \<forall>c. lo \<le> c \<and> c \<le> hi \<longrightarrow> \<not> isWhiteSpace c \<Longrightarrow>
   consumes (\<lambda>c. \<not> isWhiteSpace c) False (Chars rs)"
  by (rule consumes_Chars) (auto simp: inClass_def inRanges_def list_ex_iff)

lemma nonblank_unit:
  "\<not> isWhiteSpace n \<Longrightarrow> consumes (\<lambda>c. \<not> isWhiteSpace c) False (Chars (unit n))"
  "\<not> isWhiteSpace n \<Longrightarrow> consumes (\<lambda>c. \<not> isWhiteSpace c) False (Chars (unit n @ unit n))"
  by (rule consumes_nonblank_Chars, auto simp: unit_def dest: le_antisym)+

lemma nonblank_ch:
  "\<not> isWhiteSpace (of_char k) \<Longrightarrow>
   consumes (\<lambda>c. \<not> isWhiteSpace c) False (Seq (Chars (ch k)) r)"
  by (rule consumes_Seq_left, rule consumes_nonblank_Chars, auto simp: ch_def dest: le_antisym)

lemma nonblank_page:
  "consumes (\<lambda>c. \<not> isWhiteSpace c) False
     (Seq Bol (Seq (Star space) (Seq (Seq (Chars (ch CHR ''P'')) r) r')))"
  by (rule consumes_Seq_right, rule consumes_Seq_right, rule consumes_Seq_left,
      rule nonblank_ch, simp add: isWhiteSpace_def)

lemma nonblank_number:
  "consumes (\<lambda>c. \<not> isWhiteSpace c) False
     (Seq Bol (Seq (Star space) (Seq (Seq (Chars digit) r) r')))"
  by (rule consumes_Seq_right, rule consumes_Seq_right, rule consumes_Seq_left,
      rule consumes_Seq_left, rule consumes_nonblank_Chars,
      simp add: digit_def isWhiteSpace_def)

lemma nonblank_marker:
  "\<not> isWhiteSpace (of_char k) \<Longrightarrow>
   consumes (\<lambda>c. \<not> isWhiteSpace c) False (Seq (Seq (Chars (ch k)) r) r')"
  by (rule consumes_Seq_left, rule nonblank_ch)

lemmas regex_defs = matchHere_def inClass_def inRanges_def toUpperAscii_def toLowerAscii_def
  isLineTerminator_def isWordChar_def oneOrMore_def unit_def ch_def lit_def digit_def space_def
  anyUnit_def js_def

text \<open>
  C4, as stated, fails. The runs of spaces and tabs are collapsed (line 292) before the
  form feeds are removed and the no-break spaces replaced (lines 295 and 296), which makes
  new runs: 'a', space, U+00A0, 'b' becomes 'a', two spaces, 'b', and that becomes 'a b'.
  The same happens to a string of control characters only: U+0001, tab, form feed, tab,
  U+0001 becomes U+0001, tab, tab, U+0001, and that becomes U+0001, space, U+0001.
\<close>

theorem sanitizeText_not_idempotent:
  "sanitizeText (JStr (sanitizeText (JStr [97, 32, 160, 98])))
     \<noteq> sanitizeText (JStr [97, 32, 160, 98])
   \<and> sanitizeText (JStr (sanitizeText (JStr [1, 9, 12, 9, 1])))
     \<noteq> sanitizeText (JStr [1, 9, 12, 9, 1])"
proof -
  have "sanitizeText (JStr [97, 32, 160, 98]) = [97, 32, 32, 98]"
    by (simp add: sanitizeText_def regex_defs trim_def isWhiteSpace_def Let_def)
  moreover have "sanitizeText (JStr [97, 32, 32, 98]) = [97, 32, 98]"
    by (simp add: sanitizeText_def regex_defs trim_def isWhiteSpace_def Let_def)
  moreover have "sanitizeText (JStr [1, 9, 12, 9, 1]) = [1, 9, 9, 1]"
    by (simp add: sanitizeText_def regex_defs trim_def isWhiteSpace_def Let_def)
  moreover have "sanitizeText (JStr [1, 9, 9, 1]) = [1, 32, 1]"
    by (simp add: sanitizeText_def regex_defs trim_def isWhiteSpace_def Let_def)
  ultimately show ?thesis by simp
qed

text \<open>
  C4, as the code has it. On a value that is not a string, on the empty string and on
  every string of white space only (space, tab, line feed, vertical tab, form feed,
  carriage return, no-break space and the other Unicode spaces) sanitizeText returns the
  empty string, so applying it twice gives the same as applying it once. The function is
  total: it does not raise.
\<close>

theorem sanitizeText_blank:
  assumes "(\<forall>s. v \<noteq> JStr s) \<or> (\<exists>s. v = JStr s \<and> blank s)"
  shows "sanitizeText v = [] \<and> sanitizeText (JStr (sanitizeText v)) = sanitizeText v"
proof -
  have "sanitizeText v = []"
  proof (cases v)
    case (JStr s)
    with assms have b: "blank s" by simp
    have r: "blank [10]" "blank [10, 10]" "blank [32]" "blank []"
      by (simp_all add: blank_def isWhiteSpace_def)
    have w: "\<not> isWhiteSpace 8226" "\<not> isWhiteSpace 8211" "\<not> isWhiteSpace 8212"
      "\<not> isWhiteSpace 34" "\<not> isWhiteSpace 39" "\<not> isWhiteSpace 8230" "\<not> isWhiteSpace 46"
      "\<not> isWhiteSpace 45" "\<not> isWhiteSpace 95" "\<not> isWhiteSpace 67" "\<not> isWhiteSpace 84"
      by (simp_all add: isWhiteSpace_def)
    show ?thesis
      unfolding JStr sanitizeText_def Let_def
      by (simp add: b r w blank_replaceAll replaceAll_blank_id nonblank_unit nonblank_ch
          nonblank_page nonblank_number nonblank_marker trim_blank matchHere_def lit_def
          oneOrMore_def)
  qed (simp_all add: sanitizeText_def)
  then show ?thesis by (simp add: sanitizeText_def)
qed


theorem sanitizeText_blank_witness:
  "blank [9, 12, 9]
   \<and> sanitizeText (JStr [9, 12, 9]) = []
   \<and> sanitizeText (JStr (sanitizeText (JStr [9, 12, 9]))) = sanitizeText (JStr [9, 12, 9])
   \<and> sanitizeText JNull = []
   \<and> sanitizeText (JStr (sanitizeText JNull)) = sanitizeText JNull"
proof -
  have b: "blank [9, 12, 9]" by (simp add: blank_def isWhiteSpace_def)
  then have 1: "(\<forall>s. JStr [9, 12, 9] \<noteq> JStr s) \<or> (\<exists>s. JStr [9, 12, 9] = JStr s \<and> blank s)"
    by simp
  have 2: "(\<forall>s. JNull \<noteq> JStr s) \<or> (\<exists>s. JNull = JStr s \<and> blank s)" by simp
  from b sanitizeText_blank [OF 1] sanitizeText_blank [OF 2] show ?thesis by blast
qed

section \<open>Properties of extractExperience\<close>

lemma inClass_digit: "inClass ic digit c \<longleftrightarrow> isDigit c"
  by (auto simp: inClass_def inRanges_def digit_def isDigit_def toUpperAscii_def
      toLowerAscii_def split: if_splits)

lemma consumes_digits: "consumes isDigit ic (Seq (oneOrMore digit) r)"
  unfolding oneOrMore_def
  by (intro consumes_Seq_left consumes_Chars) (simp add: inClass_digit)

lemma experiencePatterns_consume:
  "pattern \<in> set experiencePatterns \<Longrightarrow> consumes isDigit True pattern"
  unfolding experiencePatterns_def
  by (auto intro: consumes_digits consumes_Seq_right)

lemma starEnds_first:
  "starEnds ic rs p s \<noteq> [] \<and> snd (hd (starEnds ic rs p s)) = dropWhile (inClass ic rs) s"
  by (induction s arbitrary: p) auto

lemma matchHere_digits:
  "matchHere False (oneOrMore digit) (p, c # cs) =
     (if isDigit c then Some (hd (starEnds False digit (Some c) cs)) else None)"
  using starEnds_first [of False digit "Some c" cs]
  by (auto simp: matchHere_def oneOrMore_def inClass_digit split: list.splits)

lemma take_run: "take (Suc (length cs) - length (dropWhile P cs)) (c # cs) = c # takeWhile P cs"
proof -
  have "length cs = length (takeWhile P cs) + length (dropWhile P cs)"
    by (metis length_append takeWhile_dropWhile_id)
  then have "Suc (length cs) - length (dropWhile P cs) = Suc (length (takeWhile P cs))"
    by simp
  then show ?thesis
    by (simp add: takeWhile_eq_take [symmetric])
qed

lemma firstMatch_digits:
  "\<exists>c \<in> set m. isDigit c \<Longrightarrow> firstMatch False (oneOrMore digit) p m = Some (digitRun m)"
proof (induction m arbitrary: p)
  case Nil
  then show ?case by simp
next
  case (Cons c cs)
  show ?case
  proof (cases "isDigit c")
    case True
    obtain q t where qt: "hd (starEnds False digit (Some c) cs) = (q, t)"
      by (cases "hd (starEnds False digit (Some c) cs)")
    with starEnds_first [of False digit "Some c" cs]
    have t: "t = dropWhile isDigit cs"
      by (simp add: inClass_digit [abs_def])
    from True show ?thesis
      by (simp add: matchHere_digits qt t take_run digitRun_def)
  next
    case False
    with Cons.prems have "\<exists>d \<in> set cs. isDigit d" by auto
    from Cons.IH [OF this] False show ?thesis
      by (simp add: matchHere_digits digitRun_def)
  qed
qed

lemma digitRun_digits:
  assumes "\<exists>c \<in> set m. isDigit c"
  shows "digitRun m \<noteq> []" and "\<forall>c \<in> set (digitRun m). isDigit c"
proof -
  from assms have ne: "dropWhile (\<lambda>c. \<not> isDigit c) m \<noteq> []"
    by (auto simp: dropWhile_eq_Nil_conv)
  then have "isDigit (hd (dropWhile (\<lambda>c. \<not> isDigit c) m))"
    using hd_dropWhile [of "\<lambda>c. \<not> isDigit c" m] by simp
  with ne show "digitRun m \<noteq> []"
    by (cases "dropWhile (\<lambda>c. \<not> isDigit c) m") (auto simp: digitRun_def)
  show "\<forall>c \<in> set (digitRun m). isDigit c"
    by (auto simp: digitRun_def dest: set_takeWhileD)
qed

subsection \<open>Rounding of integers\<close>

lemma roundScaled_exact:
  assumes "n < 2 ^ 53" and "e \<le> 0"
  shows "roundScaled n 1 e = Fin (real n)"
proof -
  have "real n < 2 ^ 53" using assms(1)
    by (metis of_nat_less_iff of_nat_numeral of_nat_power)
  also have "(2::real) ^ 53 \<le> 2 ^ 1024" by (rule power_increasing) simp_all
  finally have small: "\<not> (2::real) ^ 1024 \<le> real n" by simp
  show ?thesis
  proof (cases "e = 0")
    case True
    with small show ?thesis by (simp add: roundScaled_def scale2_def)
  next
    case False
    with assms(2) have "e < 0" by simp
    with small show ?thesis by (simp add: roundScaled_def scale2_def)
  qed
qed

lemma lastPlace_integer:
  assumes "0 < n" and "n < 2 ^ 53"
  shows "lastPlace n 1 \<le> 0"
proof -
  have "floorlog 2 n \<le> 53" using assms(2) by (intro floorlog_leI) simp_all
  moreover have "floorlog 2 (1::nat) = 1" by (simp add: floorlog_def)
  ultimately show ?thesis
    by (simp add: lastPlace_def Let_def)
qed

lemma toBinary64_exact:
  assumes "n \<le> 2 ^ 53"
  shows "toBinary64 n 1 = Fin (real n)"
proof (cases "n = 2 ^ 53")
  case True
  have "toBinary64 9007199254740992 1 = Fin 9007199254740992"
    by (simp add: toBinary64_def lastPlace_def roundScaled_def scale2_def Let_def
        compute_floorlog)
  with True show ?thesis by simp
next
  case False
  with assms have lt: "n < 2 ^ 53" by simp
  show ?thesis
  proof (cases "n = 0")
    case True
    then show ?thesis by (simp add: toBinary64_def)
  next
    case False
    then have "0 < n" by simp
    from roundScaled_exact [OF lt lastPlace_integer [OF this lt]] False show ?thesis
      by (simp only: toBinary64_def if_False)
  qed
qed

lemma toBinary64_not_NaN: "toBinary64 p q \<noteq> NaN"
  by (simp add: toBinary64_def roundScaled_def Let_def)


lemma parseInt_digits:
  assumes "ds \<noteq> []" and "\<forall>c \<in> set ds. isDigit c"
  shows "parseInt ds = toBinary64 (decimal ds) 1"
proof -
  from assms obtain c r where ds: "ds = c # r" and c: "isDigit c" and r: "\<forall>d \<in> set r. isDigit d"
    by (cases ds) auto
  from c have nw: "\<not> isWhiteSpace c" and ns: "c \<noteq> 43" "c \<noteq> 45"
    by (auto simp: isDigit_def isWhiteSpace_def)
  have nx: "take 2 (c # r) \<noteq> [48, 120]" "take 2 (c # r) \<noteq> [48, 88]"
    using r by (cases r; auto simp: isDigit_def)+
  have tw: "takeWhile isDigit (c # r) = c # r"
    using c r by (simp add: takeWhile_eq_all_conv)
  show ?thesis
    unfolding parseInt_def ds using nw ns nx tw
    by (simp add: js_def Let_def tw del: takeWhile.simps take_Cons_numeral)
qed

lemma yearsOf_digits:
  assumes "\<exists>c \<in> set m. isDigit c"
  shows "yearsOf m = Inr (toBinary64 (decimal (digitRun m)) 1)"
  using firstMatch_digits [OF assms] digitRun_digits [OF assms]
  by (simp add: yearsOf_def parseInt_digits)

lemma scanMatches_fold:
  "\<forall>m \<in> set ms. \<exists>c \<in> set m. isDigit c \<Longrightarrow>
   scanMatches ms a =
     Inr (fold (\<lambda>years maxYears. if num_gt years maxYears then years else maxYears)
            (map (\<lambda>m. toBinary64 (decimal (digitRun m)) 1) ms) a)"
proof (induction ms arbitrary: a)
  case Nil
  then show ?case by simp
next
  case (Cons m ms)
  from Cons.prems have m: "\<exists>c \<in> set m. isDigit c" and ms: "\<forall>m \<in> set ms. \<exists>c \<in> set m. isDigit c"
    by auto
  from Cons.IH [OF ms] show ?case
    by (simp add: yearsOf_digits [OF m] bindE_def)
qed

lemma scanPatterns_fold:
  "\<forall>pattern \<in> set patterns. consumes isDigit True pattern \<Longrightarrow>
   scanPatterns patterns text a =
     Inr (fold (\<lambda>years maxYears. if num_gt years maxYears then years else maxYears)
            (map (\<lambda>m. toBinary64 (decimal (digitRun m)) 1)
               (concat (map (\<lambda>pattern. matchAll True pattern None text) patterns))) a)"
proof (induction patterns arbitrary: a)
  case Nil
  then show ?case by simp
next
  case (Cons pattern patterns)
  from Cons.prems have "\<forall>m \<in> set (matchAll True pattern None text). \<exists>c \<in> set m. isDigit c"
    by (auto dest: matchAll_consumes)
  from scanMatches_fold [OF this] Cons.IH Cons.prems show ?case
    by (simp add: bindE_def)
qed

lemma totalYears_fold:
  "totalYears (extractExperience (JStr text)) =
     fold (\<lambda>years maxYears. if num_gt years maxYears then years else maxYears)
       (map (\<lambda>n. toBinary64 n 1) (matchedYears text)) (Fin 0)"
proof -
  have "scanPatterns experiencePatterns text (Fin 0) =
     Inr (fold (\<lambda>years maxYears. if num_gt years maxYears then years else maxYears)
       (map (\<lambda>n. toBinary64 n 1) (matchedYears text)) (Fin 0))"
    unfolding matchedYears_def map_map comp_def
    by (rule scanPatterns_fold) (simp add: experiencePatterns_consume)
  then show ?thesis
    by (simp add: extractExperience_def)
qed

lemma num_le_refl: "a \<noteq> NaN \<Longrightarrow> num_le a a"
  by (cases a) simp_all

lemma num_le_total: "a \<noteq> NaN \<Longrightarrow> b \<noteq> NaN \<Longrightarrow> num_le a b \<or> num_le b a"
  by (cases a; cases b) auto

lemma num_le_trans: "num_le a b \<Longrightarrow> num_le b c \<Longrightarrow> num_le a c"
  by (cases a; cases b; cases c) auto

lemma fold_greater:
  "a \<noteq> NaN \<Longrightarrow> \<forall>v \<in> set vs. v \<noteq> NaN \<Longrightarrow>
   fold (\<lambda>years maxYears. if num_gt years maxYears then years else maxYears) vs a \<in> set (a # vs)
   \<and> (\<forall>v \<in> set (a # vs).
        num_le v (fold (\<lambda>years maxYears. if num_gt years maxYears then years else maxYears) vs a))"
proof (induction vs arbitrary: a)
  case Nil
  then show ?case by (simp add: num_le_refl)
next
  case (Cons v vs)
  let ?step = "\<lambda>years maxYears. if num_gt years maxYears then years else maxYears"
  let ?b = "?step v a"
  from Cons.prems have v: "v \<noteq> NaN" and vs: "\<forall>w \<in> set vs. w \<noteq> NaN" by auto
  with Cons.prems(1) have b: "?b \<noteq> NaN" by simp
  from Cons.IH [OF b vs]
  have mem: "fold ?step vs ?b \<in> set (?b # vs)"
    and ub: "\<forall>w \<in> set (?b # vs). num_le w (fold ?step vs ?b)" by auto
  have ab: "num_le a ?b"
    using Cons.prems(1) by (auto simp: num_gt_def num_le_refl)
  have vb: "num_le v ?b"
    using v Cons.prems(1) num_le_total [of a v] by (auto simp: num_gt_def num_le_refl)
  from ub have bt: "num_le ?b (fold ?step vs ?b)" by simp
  have "num_le a (fold ?step vs ?b)" "num_le v (fold ?step vs ?b)"
    using num_le_trans [OF ab bt] num_le_trans [OF vb bt] by auto
  moreover have "fold ?step vs ?b \<in> set (a # v # vs)"
    using mem by auto
  ultimately show ?case using ub by simp
qed

lemma fold_greater_exact:
  "\<forall>n \<in> set ns. n \<le> 2 ^ 53 \<Longrightarrow>
   fold (\<lambda>years maxYears. if num_gt years maxYears then years else maxYears)
     (map (\<lambda>n. toBinary64 n 1) ns) (Fin (real a)) = Fin (real (fold max ns a))"
proof (induction ns arbitrary: a)
  case Nil
  then show ?case by simp
next
  case (Cons n ns)
  from Cons.prems have n: "toBinary64 n 1 = Fin (real n)"
    by (intro toBinary64_exact) simp
  from Cons.prems have ns: "\<forall>n \<in> set ns. n \<le> 2 ^ 53" by simp
  have "(if num_gt (Fin (real n)) (Fin (real a)) then Fin (real n) else Fin (real a))
        = Fin (real (max n a))"
    by (auto simp: num_gt_def max_def)
  with Cons.IH [OF ns] show ?case by (simp add: n del: One_nat_def)
qed

lemma example_text:
  "js ''5+ years of experience in backend systems, 3 years in DevOps'' =
     [53, 43, 32, 121, 101, 97, 114, 115, 32, 111, 102, 32, 101, 120, 112, 101, 114, 105, 101,
      110, 99, 101, 32, 105, 110, 32, 98, 97, 99, 107, 101, 110, 100, 32, 115, 121, 115, 116,
      101, 109, 115, 44, 32, 51, 32, 121, 101, 97, 114, 115, 32, 105, 110, 32, 68, 101, 118, 79,
      112, 115]"
  by (simp add: js_def)

lemma example_years:
  "matchedYears (js ''5+ years of experience in backend systems, 3 years in DevOps'') = [5, 3]"
  unfolding example_text
  by (simp add: matchedYears_def experiencePatterns_def regex_defs digitRun_def decimal_def
      isDigit_def)

lemma large_years:
  "matchedYears (js ''9007199254740993 years of experience'') = [9007199254740993]"
  by (simp add: matchedYears_def experiencePatterns_def regex_defs digitRun_def decimal_def
      isDigit_def)

lemma large_rounded: "toBinary64 9007199254740993 1 = Fin 9007199254740992"
  by (simp add: toBinary64_def lastPlace_def roundScaled_def scale2_def Let_def
      compute_floorlog)

text \<open>
  C7, as stated, fails: \<open>parseInt\<close> returns a number, and an integer above 2 to the
  power 53 need not be one. For the text '9007199254740993 years of experience' the
  integer matched is 9007199254740993 and \<open>totalYears\<close> is 9007199254740992.
\<close>

theorem totalYears_rounded:
  "totalYears (extractExperience (JStr (js ''9007199254740993 years of experience'')))
     = Fin 9007199254740992
   \<and> Max (set (0 # matchedYears (js ''9007199254740993 years of experience'')))
     = 9007199254740993
   \<and> totalYears (extractExperience (JStr (js ''9007199254740993 years of experience'')))
     \<noteq> Fin (real (Max (set (0 # matchedYears (js ''9007199254740993 years of experience'')))))"
  by (simp add: totalYears_fold large_years large_rounded num_gt_def del: One_nat_def)

text \<open>
  C7, as the code has it. For every text, \<open>totalYears\<close> is the greatest of 0 and the
  numbers \<open>parseInt\<close> returns for the integers matched by the three patterns (each
  integer rounded to binary64): it is one of them and none is greater; it is 0 when
  nothing matches. When every integer matched is at most 2 to the power 53, so that the
  rounding changes none, \<open>totalYears\<close> is the maximum of 0 and the integers matched. The
  text of the specification gives 5. The \<open>try\<close> block never throws on a string: every
  match contains a digit, so the lookup of line 207 finds one.
\<close>

theorem extractExperience_totalYears:
  "(let years = map (\<lambda>n. toBinary64 n 1) (matchedYears text);
        t = totalYears (extractExperience (JStr text))
    in t \<in> set (Fin 0 # years) \<and> (\<forall>v \<in> set (Fin 0 # years). num_le v t))
   \<and> ((\<forall>n \<in> set (matchedYears text). n \<le> 2 ^ 53) \<longrightarrow>
        totalYears (extractExperience (JStr text))
          = Fin (real (Max (set (0 # matchedYears text)))))
   \<and> totalYears (extractExperience
        (JStr (js ''5+ years of experience in backend systems, 3 years in DevOps''))) = Fin 5"
proof (intro conjI impI)
  have "\<forall>v \<in> set (map (\<lambda>n. toBinary64 n 1) (matchedYears text)). v \<noteq> NaN"
    by (simp add: toBinary64_not_NaN)
  from fold_greater [OF _ this, of "Fin 0"]
  show "let years = map (\<lambda>n. toBinary64 n 1) (matchedYears text);
            t = totalYears (extractExperience (JStr text))
        in t \<in> set (Fin 0 # years) \<and> (\<forall>v \<in> set (Fin 0 # years). num_le v t)"
    by (simp add: totalYears_fold Let_def del: One_nat_def)
next
  assume "\<forall>n \<in> set (matchedYears text). n \<le> 2 ^ 53"
  from fold_greater_exact [OF this, of 0]
  have "totalYears (extractExperience (JStr text)) = Fin (real (fold max (matchedYears text) 0))"
    by (simp add: totalYears_fold del: One_nat_def)
  also have "fold max (matchedYears text) 0 = Max (set (0 # matchedYears text))"
    by (rule Max.set_eq_fold [symmetric])
  finally show "totalYears (extractExperience (JStr text))
      = Fin (real (Max (set (0 # matchedYears text))))" .
next
  have "\<forall>n \<in> set [5, 3::nat]. n \<le> 2 ^ 53" by simp
  from fold_greater_exact [OF this, of 0]
  show "totalYears (extractExperience
        (JStr (js ''5+ years of experience in backend systems, 3 years in DevOps''))) = Fin 5"
    by (simp add: totalYears_fold example_years del: One_nat_def)
qed

theorem extractExperience_totalYears_witness:
  "matchedYears (js ''5+ years of experience in backend systems, 3 years in DevOps'') = [5, 3]
   \<and> (5::nat) \<le> 2 ^ 53 \<and> (3::nat) \<le> 2 ^ 53
   \<and> totalYears (extractExperience
        (JStr (js ''5+ years of experience in backend systems, 3 years in DevOps''))) = Fin 5
   \<and> num_le (Fin 0) (totalYears (extractExperience
        (JStr (js ''5+ years of experience in backend systems, 3 years in DevOps''))))"
proof -
  let ?t = "js ''5+ years of experience in backend systems, 3 years in DevOps''"
  have h: "\<forall>n \<in> set (matchedYears ?t). n \<le> 2 ^ 53"
    by (simp add: example_years)
  from extractExperience_totalYears [of ?t] h
  have "totalYears (extractExperience (JStr ?t)) = Fin (real (Max (set (0 # matchedYears ?t))))"
    by blast
  then have t: "totalYears (extractExperience (JStr ?t)) = Fin 5"
    by (simp add: example_years)
  from h t show ?thesis by (simp add: example_years)
qed


section \<open>Properties of extractSkills\<close>

lemma scanSkills_filter:
  "scanSkills skills' textLower foundSkills =
     foundSkills @ filter (\<lambda>skill. test True (skillRegex skill) None textLower) skills'"
  by (induction skills' arbitrary: foundSkills) auto

lemma set_foldl_setAdd: "set (foldl setAdd acc xs) = set acc \<union> set xs"
  by (induction xs arbitrary: acc) (auto simp: setAdd_def)

lemma distinct_foldl_setAdd: "distinct acc \<Longrightarrow> distinct (foldl setAdd acc xs)"
  by (induction xs arbitrary: acc) (auto simp: setAdd_def)

lemma skills_example_text:
  "js ''JavaScript, mail Jane@Example.COM'' =
     [74, 97, 118, 97, 83, 99, 114, 105, 112, 116, 44, 32, 109, 97, 105, 108, 32, 74, 97, 110,
      101, 64, 69, 120, 97, 109, 112, 108, 101, 46, 67, 79, 77]"
  by (simp add: js_def)

lemma skills_example_emails:
  "matchAll False emailRegex None (js ''JavaScript, mail Jane@Example.COM'')
     = [js ''Jane@Example.COM'']"
  unfolding skills_example_text
  by (simp add: emailRegex_def regex_defs)

lemma skills_example_found:
  "scanSkills commonSkills (asciiToLowerCase (js ''JavaScript, mail Jane@Example.COM'')) []
     = [js ''javascript'']"
  unfolding skills_example_text
  by (simp add: commonSkills_def skillRegex_def asciiToLowerCase_def regex_defs)

text \<open>
  C10. Whatever \<open>toLowerCase\<close> does and whatever the casing of the text, the result has
  no duplicates and its entries are exactly the vocabulary terms whose expression matches
  the lower-cased text, spelled as in the vocabulary, and the email addresses matched in
  the text, as they appear there. On a value that is not a string the result is the empty
  list; the function is total, so it never raises. The text 'JavaScript, mail
  Jane@Example.COM' gives 'javascript' and 'Jane@Example.COM'.
\<close>

theorem extractSkills_entries:
  "distinct (extractSkills toLowerCase v)
   \<and> set (extractSkills toLowerCase (JStr s)) =
       {skill \<in> set commonSkills. test True (skillRegex skill) None (toLowerCase s)}
       \<union> set (matchAll False emailRegex None s)
   \<and> extractSkills toLowerCase JNull = []
   \<and> extractSkills toLowerCase JUndefined = []
   \<and> extractSkills toLowerCase (JBool b) = []
   \<and> extractSkills toLowerCase (JNum n) = []
   \<and> extractSkills toLowerCase (JArr xs) = []
   \<and> extractSkills toLowerCase (JObj kvs) = []
   \<and> extractSkills asciiToLowerCase (JStr (js ''JavaScript, mail Jane@Example.COM''))
       = [js ''javascript'', js ''Jane@Example.COM'']"
proof -
  have "distinct (extractSkills toLowerCase v)"
    by (cases v) (simp_all add: extractSkills_def Let_def distinct_foldl_setAdd)
  moreover have "set (extractSkills toLowerCase (JStr s)) =
       {skill \<in> set commonSkills. test True (skillRegex skill) None (toLowerCase s)}
       \<union> set (matchAll False emailRegex None s)"
    by (auto simp: extractSkills_def Let_def set_foldl_setAdd scanSkills_filter)
  moreover have "extractSkills asciiToLowerCase (JStr (js ''JavaScript, mail Jane@Example.COM''))
       = [js ''javascript'', js ''Jane@Example.COM'']"
    unfolding skills_example_text
    by (simp add: extractSkills_def Let_def skills_example_found [unfolded skills_example_text]
        skills_example_emails [unfolded skills_example_text] setAdd_def js_def
        del: matchAll.simps scanSkills.simps)
  ultimately show ?thesis by (simp add: extractSkills_def)
qed


section \<open>Properties of batchScoreResumes\<close>

lemma batchLoop_attempts:
  "fst (batchLoop api job resumes results w) =
     results @ map2 entryFor resumes (attempts api w job resumes)"
  by (induction resumes arbitrary: results w)
     (auto simp: entryFor_def split: prod.splits sum.splits)

lemma length_attempts: "length (attempts api w job resumes) = length resumes"
  by (induction resumes arbitrary: w) (auto split: prod.splits)

lemma resumeId_entryFor: "resumeId (entryFor resume outcome) = resume_id resume"
  by (auto simp: entryFor_def split: sum.splits)

lemma success_entryFor: "success (entryFor resume outcome) = (\<not> isl outcome)"
  by (auto simp: entryFor_def split: sum.splits)

lemma map_resumeId_entries:
  "length outcomes = length resumes \<Longrightarrow>
   map resumeId (map2 entryFor resumes outcomes) = map resume_id resumes"
  by (induction resumes outcomes rule: list_induct2') (auto simp: resumeId_entryFor)

lemma map_success_entries:
  "length outcomes = length resumes \<Longrightarrow>
   map success (map2 entryFor resumes outcomes) = map (\<lambda>outcome. \<not> isl outcome) outcomes"
  by (induction resumes outcomes rule: list_induct2') (auto simp: success_entryFor)

text \<open>
  C5. The result has one entry per document, in the order of the input and with the
  identifier of its document; the entry of a document whose scoring failed is the failure
  object with the message, the entry of any other the scored object; and every document is
  attempted, whatever happened to those before it. For three documents and a service whose
  second call fails, the result has three entries: the first and the third successful, the
  second failed with its message.
\<close>

theorem batchScoreResumes_one_entry_each:
  "length (fst (batchScoreResumes api w resumes job)) = length resumes
   \<and> length (attempts api w job resumes) = length resumes
   \<and> fst (batchScoreResumes api w resumes job) = map2 entryFor resumes (attempts api w job resumes)
   \<and> map resumeId (fst (batchScoreResumes api w resumes job)) = map resume_id resumes
   \<and> map success (fst (batchScoreResumes api w resumes job))
       = map (\<lambda>outcome. \<not> isl outcome) (attempts api w job resumes)
   \<and> entryFor resume (Inl message) = Failed (resume_id resume) message
   \<and> (let info = \<lparr>BasicInfo.candidateName = None, email = None, phone = None, location = None\<rparr>;
           docs = [\<lparr>resume_id = js ''r1'', extractedText = js ''a'', basicInfo = info\<rparr>,
                   \<lparr>resume_id = js ''r2'', extractedText = js ''b'', basicInfo = info\<rparr>,
                   \<lparr>resume_id = js ''r3'', extractedText = js ''c'', basicInfo = info\<rparr>];
           service = (\<lambda>n request.
              (if n = Suc 0 then Inl (js ''timeout'') else Inr (JObj [], JNum (Fin 100)), Suc n));
           results = fst (batchScoreResumes service 0 docs ())
       in length results = 3
          \<and> map success results = [True, False, True]
          \<and> map resumeId results = [js ''r1'', js ''r2'', js ''r3'']
          \<and> results ! 1 = Failed (js ''r2'') (js ''AI scoring failed: timeout''))"
proof -
  have eq: "fst (batchScoreResumes api w resumes job)
      = map2 entryFor resumes (attempts api w job resumes)"
    by (simp add: batchScoreResumes_def batchLoop_attempts)
  have len: "length (attempts api w job resumes) = length resumes"
    by (rule length_attempts)
  have ex: "(let info = \<lparr>BasicInfo.candidateName = None, email = None, phone = None, location = None\<rparr>;
           docs = [\<lparr>resume_id = js ''r1'', extractedText = js ''a'', basicInfo = info\<rparr>,
                   \<lparr>resume_id = js ''r2'', extractedText = js ''b'', basicInfo = info\<rparr>,
                   \<lparr>resume_id = js ''r3'', extractedText = js ''c'', basicInfo = info\<rparr>];
           service = (\<lambda>n request.
              (if n = Suc 0 then Inl (js ''timeout'') else Inr (JObj [], JNum (Fin 100)), Suc n));
           results = fst (batchScoreResumes service (0::nat) docs ())
       in length results = 3
          \<and> map success results = [True, False, True]
          \<and> map resumeId results = [js ''r1'', js ''r2'', js ''r3'']
          \<and> results ! 1 = Failed (js ''r2'') (js ''AI scoring failed: timeout''))"
    by (simp add: batchScoreResumes_def scoreResume_def Let_def js_def)
  have ids: "map resumeId (fst (batchScoreResumes api w resumes job)) = map resume_id resumes"
    unfolding eq using len by (rule map_resumeId_entries)
  have flags: "map success (fst (batchScoreResumes api w resumes job))
       = map (\<lambda>outcome. \<not> isl outcome) (attempts api w job resumes)"
    unfolding eq using len by (rule map_success_entries)
  have "length (fst (batchScoreResumes api w resumes job)) = length resumes"
    unfolding eq using len by simp
  moreover have "entryFor resume (Inl message) = Failed (resume_id resume) message"
    by (simp add: entryFor_def)
  ultimately show ?thesis
    using eq len ids flags ex by blast
qed


end
